theory Spec2Isabelle
  imports Main
begin

section \<open>Python strings\<close>

text \<open>
  A Python \<open>str\<close> is modelled as a \<open>string\<close>; the model covers the code points below 256,
  one \<open>char\<close> each. \<open>isspace\<close> is \<open>str.isspace\<close> on one character, which is also the
  class \<open>\s\<close> of the \<open>re\<close> module on \<open>str\<close> patterns and the set that \<open>str.strip()\<close>
  removes: 0x09-0x0D, 0x1C-0x20, 0x85 and 0xA0.
\<close>

definition isspace :: "char \<Rightarrow> bool" where
  "isspace c =
     (let n = (of_char c :: nat)
      in (9 \<le> n \<and> n \<le> 13) \<or> (28 \<le> n \<and> n \<le> 32) \<or> n = 133 \<or> n = 160)"

text \<open>\<open>s.strip(chars)\<close>: the longest prefix and suffix made of the given characters go.\<close>

definition strip_chars :: "(char \<Rightarrow> bool) \<Rightarrow> string \<Rightarrow> string" where
  "strip_chars P s = rev (dropWhile P (rev (dropWhile P s)))"

definition strip :: "string \<Rightarrow> string" where
  "strip s = strip_chars isspace s"

definition is_blank :: "char \<Rightarrow> bool" where
  "is_blank c = (c = CHR '' '')"

definition is_dquote :: "char \<Rightarrow> bool" where
  "is_dquote c = (c = CHR 0x22)"

text \<open>\<open>sep.join(xs)\<close>.\<close>

fun join :: "string \<Rightarrow> string list \<Rightarrow> string" where
  "join sep [] = []"
| "join sep [x] = x"
| "join sep (x # y # ys) = x @ sep @ join sep (y # ys)"

text \<open>\<open>s.startswith(p)\<close>, as a function that computes.\<close>

fun startswith :: "string \<Rightarrow> string \<Rightarrow> bool" where
  "startswith s [] = True"
| "startswith [] (p # ps) = False"
| "startswith (c # cs) (p # ps) = (c = p \<and> startswith cs ps)"

section \<open>The action pattern\<close>

text \<open>
  \<^verbatim>\<open>regex = r"Action: [\[]?(.*?)[\]]?[\n]*Action Input:[\s]*(.*)"\<close>, searched with
  \<open>re.DOTALL\<close>. Each function below is one piece of the pattern followed by the rest of
  it, and tries its alternatives in the order the backtracking matcher does: a greedy
  piece takes a character first and gives it back when the rest fails, the lazy group
  tries the rest first and takes a character when the rest fails. A result is the pair
  of the two groups.
\<close>

text \<open>\<^verbatim>\<open>[\s]*(.*)\<close>: the greedy run of white space, then group 2 takes all that is left
  (with DOTALL the dot matches every character), so the first try succeeds.\<close>

definition m_input :: "string \<Rightarrow> string" where
  "m_input s = dropWhile isspace s"

text \<open>\<^verbatim>\<open>Action Input:\<close> and what follows it.\<close>

definition m_literal :: "string \<Rightarrow> string option" where
  "m_literal s =
     (if startswith s ''Action Input:'' then Some (m_input (drop 13 s)) else None)"

text \<open>\<^verbatim>\<open>[\n]*\<close>, greedy.\<close>

fun m_newlines :: "string \<Rightarrow> string option" where
  "m_newlines [] = m_literal []"
| "m_newlines (c # cs) =
     (if c = CHR 0x0A
      then (case m_newlines cs of Some g \<Rightarrow> Some g | None \<Rightarrow> m_literal (c # cs))
      else m_literal (c # cs))"

text \<open>\<^verbatim>\<open>[\]]?\<close>, greedy.\<close>

fun m_close :: "string \<Rightarrow> string option" where
  "m_close [] = m_newlines []"
| "m_close (c # cs) =
     (if c = CHR '']''
      then (case m_newlines cs of Some g \<Rightarrow> Some g | None \<Rightarrow> m_newlines (c # cs))
      else m_newlines (c # cs))"

text \<open>\<^verbatim>\<open>(.*?)\<close>, lazy; \<open>acc\<close> is the text of group 1 so far, reversed.\<close>

fun m_name :: "string \<Rightarrow> string \<Rightarrow> (string \<times> string) option" where
  "m_name acc [] =
     (case m_close [] of Some g \<Rightarrow> Some (rev acc, g) | None \<Rightarrow> None)"
| "m_name acc (c # cs) =
     (case m_close (c # cs) of
        Some g \<Rightarrow> Some (rev acc, g)
      | None \<Rightarrow> m_name (c # acc) cs)"

text \<open>\<^verbatim>\<open>[\[]?\<close>, greedy.\<close>

fun m_open :: "string \<Rightarrow> (string \<times> string) option" where
  "m_open [] = m_name [] []"
| "m_open (c # cs) =
     (if c = CHR ''[''
      then (case m_name [] cs of Some r \<Rightarrow> Some r | None \<Rightarrow> m_name [] (c # cs))
      else m_name [] (c # cs))"

text \<open>The whole pattern at the start of \<open>s\<close>.\<close>

definition m_action :: "string \<Rightarrow> (string \<times> string) option" where
  "m_action s = (if startswith s ''Action: '' then m_open (drop 8 s) else None)"

text \<open>\<open>re.search\<close>: the match at the leftmost position that has one.\<close>

fun re_search :: "string \<Rightarrow> (string \<times> string) option" where
  "re_search [] = m_action []"
| "re_search (c # cs) =
     (case m_action (c # cs) of Some r \<Rightarrow> Some r | None \<Rightarrow> re_search cs)"

section \<open>Data model\<close>

text \<open>
  What \<open>json.loads\<close> returns. A float is kept as its text; a dict as the list of its
  items.
\<close>

datatype pyval =
    PNone
  | PBool bool
  | PInt int
  | PFloat string
  | PStr string
  | PList "pyval list"
  | PDict "(string \<times> pyval) list"

text \<open>\<open>type(v).__name__\<close>.\<close>

fun type_name :: "pyval \<Rightarrow> string" where
  "type_name PNone = ''NoneType''"
| "type_name (PBool b) = ''bool''"
| "type_name (PInt i) = ''int''"
| "type_name (PFloat f) = ''float''"
| "type_name (PStr s) = ''str''"
| "type_name (PList l) = ''list''"
| "type_name (PDict d) = ''dict''"

text \<open>
  The exceptions that \<open>run\<close> raises or records. \<open>ValueError\<close>, \<open>AttributeError\<close>,
  \<open>IndexError\<close> and \<open>RecursionError\<close> carry their message, \<open>KeyError\<close> the missing key,
  \<open>JSONDecodeError\<close> the text \<open>str(e)\<close> of the decoder's error, and \<open>ToolException cls msg\<close>
  is an exception of class \<open>cls\<close> with \<open>str(e) = msg\<close> that the call of a tool raised.
\<close>

datatype error =
    ValueError string
  | AttributeError string
  | IndexError string
  | KeyError string
  | RecursionError string
  | JSONDecodeError string
  | ToolException string string

text \<open>
  A tool (\<open>BaseTool\<close> is an external collaborator): its \<open>name\<close> and \<open>description\<close>, the
  text \<open>_describe_run()\<close> returns, whether it is an instance of \<open>ReturnFinalAnswerTool\<close>,
  the name under which the interpreter reports its \<open>run\<close> method, and \<open>run\<close> itself,
  which takes the keyword arguments and either raises (class name and \<open>str(e)\<close>; the
  model covers subclasses of \<open>Exception\<close>) or returns a text. Tools and the language
  model may keep state of their own: it is the world \<open>'w\<close>, threaded through every call.
\<close>

record 'w tool =
  name :: string
  description :: string
  describe_run :: string
  is_final :: bool
  run_qualname :: string
  tool_run :: "'w \<Rightarrow> (string \<times> pyval) list \<Rightarrow> ((string \<times> string) + string) \<times> 'w"

text \<open>The fields of an \<open>Agent\<close>. \<open>llm\<close> is \<open>self.llm.generate\<close>: messages (role and content)
  and stop strings to generated text.\<close>

record 'w agent =
  llm :: "'w \<Rightarrow> (string \<times> string) list \<Rightarrow> string list \<Rightarrow> string \<times> 'w"
  tools :: "'w tool list"
  prompt_template :: string
  max_loops :: int
  stop_pattern :: "string list"
  ai_responses :: "string list"
  verbose :: bool
  debug :: bool
  errors_encountered :: "error list"

text \<open>The fields of a \<open>Task\<close> that \<open>run\<close> reads and writes.\<close>

record task =
  goal :: string
  raw_output :: "string option"
  completed :: bool

section \<open>The tool catalogue\<close>

definition tool_description :: "'w agent \<Rightarrow> string" where
  "tool_description self =
     join [CHR 0x0A]
       (map (\<lambda>t. name t @ '': '' @ description t @ ''. how to run: '' @ describe_run t)
          (tools self))"

definition tool_names :: "'w agent \<Rightarrow> string" where
  "tool_names self = join '', '' (map name (tools self))"

text \<open>The dict comprehension keeps, for a name that occurs twice, the later tool.\<close>

definition tool_by_names :: "'w agent \<Rightarrow> string \<Rightarrow> 'w tool option" where
  "tool_by_names self = map_of (rev (map (\<lambda>t. (name t, t)) (tools self)))"

section \<open>The action parser\<close>

text \<open>
  \<open>Agent._parse\<close>. Without a match the error is recorded and, in debug mode, raised.
  Otherwise \<open>tool\<close> and \<open>tool_input\<close> are set to the corrective text, and the next
  statement, \<open>match.group(1)\<close> on \<open>None\<close>, raises \<open>AttributeError\<close>.
\<close>

definition parse :: "'w agent \<Rightarrow> string \<Rightarrow> (error + string \<times> string) \<times> 'w agent" where
  \<open>parse self generated =
     (case re_search generated of
        None \<Rightarrow>
          (let err = ValueError
                 (''Output of LLM is not parsable for next tool use: `'' @ generated @ ''`'');
               self' = self\<lparr>errors_encountered := errors_encountered self @ [err]\<rparr>
           in if debug self then (Inl err, self')
              else
                (let tool = ''TOOL ERROR. MAKE SURE TO VERBTAIM STATE A TOOL NAME FROM THE LIST: ''
                       @ tool_names self;
                     tool_input = tool
                 in (Inl (AttributeError (CHR 0x27 # ''NoneType'' @ CHR 0x27 # '' object has no attribute ''
                        @ CHR 0x27 # ''group'' @ [CHR 0x27])),
                     self')))
      | Some (g1, g2) \<Rightarrow>
          (Inr (strip g1, strip_chars is_dquote (strip_chars is_blank g2)), self))\<close>


section \<open>What the model takes from outside\<close>

text \<open>
  The library and the collaborators that the sources call but do not contain:
  \<open>today\<close> is \<open>str(datetime.date.today())\<close>; \<open>loads\<close> is \<open>json.loads\<close>, returning the value
  or the exception it raises: a \<open>JSONDecodeError\<close>, or one of another class (\<open>ValueError\<close>
  for an integer of more than 4300 digits, \<open>RecursionError\<close> for too deep a nesting);
  \<open>format_field name conversion spec kwargs\<close> is what \<open>str.format\<close> does with a replacement
  field that has a conversion, a format spec, an attribute or index access or a numeric
  name; the \<open>rfa\<close> fields are the texts of the default \<open>ReturnFinalAnswerTool()\<close> and what
  its \<open>run\<close> does when it is not called with one text.
\<close>

record env =
  today :: string
  loads :: "string \<Rightarrow> error + pyval"
  format_field :: "string \<Rightarrow> char option \<Rightarrow> string \<Rightarrow> (string \<times> string) list \<Rightarrow> error + string"
  rfa_description :: string
  rfa_describe_run :: string
  rfa_qualname :: string
  rfa_other :: "(string \<times> pyval) list \<Rightarrow> (string \<times> string) + string"

section \<open>\<open>str.format\<close> with keyword arguments\<close>

text \<open>
  The scanner of replacement fields, after CPython's \<open>parse_field\<close>. The field name ends
  at \<open>}\<close>, \<open>:\<close> or \<open>!\<close>; a \<open>[\<close> skips to the next \<open>]\<close>; a \<open>{\<close> in the name is an error.
  The result is the name, the character that ended it, and the text after that.
\<close>

function scan_name :: "string \<Rightarrow> string \<Rightarrow> error + (string \<times> char \<times> string)" where
  "scan_name acc [] = Inl (ValueError ''expected '}' before end of string'')"
| "scan_name acc (c # cs) =
     (if c = CHR ''{'' then Inl (ValueError ''unexpected '{' in field name'')
      else if c = CHR ''[''
      then scan_name (rev (takeWhile (\<lambda>d. d \<noteq> CHR '']'') cs) @ c # acc)
             (dropWhile (\<lambda>d. d \<noteq> CHR '']'') cs)
      else if c = CHR ''}'' \<or> c = CHR '':'' \<or> c = CHR ''!'' then Inr (rev acc, c, cs)
      else scan_name (c # acc) cs)"
  by pat_completeness auto
termination
  by (relation "measure (\<lambda>(acc, s). length s)")
    (auto simp: length_dropWhile_le less_Suc_eq_le)

text \<open>The format spec runs to the \<open>}\<close> that closes the field; braces inside it nest.\<close>

fun scan_spec :: "nat \<Rightarrow> string \<Rightarrow> string \<Rightarrow> error + (string \<times> string)" where
  "scan_spec count acc [] = Inl (ValueError ''unmatched '{' in format spec'')"
| "scan_spec count acc (c # cs) =
     (if c = CHR ''{'' then scan_spec (count + 1) (c # acc) cs
      else if c = CHR ''}''
      then (if count - 1 = 0 then Inr (rev acc, cs) else scan_spec (count - 1) (c # acc) cs)
      else scan_spec count (c # acc) cs)"

text \<open>A parsed field: name, conversion, format spec, and the text after the field.\<close>

definition parse_field :: "string \<Rightarrow> error + (string \<times> char option \<times> string \<times> string)" where
  "parse_field s =
     (case scan_name [] s of
        Inl e \<Rightarrow> Inl e
      | Inr (nm, c, cs) \<Rightarrow>
          if c = CHR ''}'' then Inr (nm, None, [], cs)
          else if c = CHR ''!''
          then (case cs of
                  [] \<Rightarrow> Inl (ValueError ''end of string while looking for conversion specifier'')
                | conv # cs1 \<Rightarrow>
                    (case cs1 of
                       [] \<Rightarrow> map_sum id (\<lambda>(sp, r). (nm, Some conv, sp, r)) (scan_spec 1 [] [])
                     | c2 # cs2 \<Rightarrow>
                         if c2 = CHR ''}'' then Inr (nm, Some conv, [], cs2)
                         else if c2 \<noteq> CHR '':''
                         then Inl (ValueError ''expected ':' after conversion specifier'')
                         else map_sum id (\<lambda>(sp, r). (nm, Some conv, sp, r)) (scan_spec 1 [] cs2)))
          else map_sum id (\<lambda>(sp, r). (nm, None, sp, r)) (scan_spec 1 [] cs))"

definition all_digits :: "string \<Rightarrow> bool" where
  "all_digits s = list_all (\<lambda>c. 48 \<le> (of_char c :: nat) \<and> (of_char c :: nat) \<le> 57) s"

text \<open>
  The value of a field. A plain name is looked up among the keyword arguments; the
  empty name is positional argument 0, and there are no positional arguments.
\<close>

definition render_field ::
  "env \<Rightarrow> (string \<times> string) list \<Rightarrow> string \<Rightarrow> char option \<Rightarrow> string \<Rightarrow> error + string" where
  "render_field E kwargs nm conv spec =
     (case conv of
        Some cv \<Rightarrow> format_field E nm conv spec kwargs
      | None \<Rightarrow>
          if spec = []
          then (if CHR ''.'' \<in> set nm \<or> CHR ''['' \<in> set nm
                then format_field E nm conv spec kwargs
                else if nm = []
                then Inl (IndexError
                       ''Replacement index 0 out of range for positional args tuple'')
                else if all_digits nm then format_field E nm conv spec kwargs
                else (case map_of kwargs nm of None \<Rightarrow> Inl (KeyError nm) | Some v \<Rightarrow> Inr v))
          else format_field E nm conv spec kwargs)"

text \<open>
  \<open>template.format(**kwargs)\<close>, after CPython's markup iterator: text is copied up to a
  brace; a doubled brace is one literal brace; a single \<open>}\<close>, or a \<open>{\<close> at the end of the
  string, is an error; any other \<open>{\<close> starts a replacement field. The first error met
  from the left is the one raised.
\<close>

function py_format :: "env \<Rightarrow> string \<Rightarrow> (string \<times> string) list \<Rightarrow> error + string" where
  "py_format E [] kwargs = Inr []"
| "py_format E (c # cs) kwargs =
     (if c = CHR ''}''
      then (case cs of
              [] \<Rightarrow> Inl (ValueError ''Single '}' encountered in format string'')
            | d # ds \<Rightarrow>
                if d = CHR ''}'' then map_sum id ((#) c) (py_format E ds kwargs)
                else Inl (ValueError ''Single '}' encountered in format string''))
      else if c = CHR ''{''
      then (case cs of
              [] \<Rightarrow> Inl (ValueError ''Single '{' encountered in format string'')
            | d # ds \<Rightarrow>
                if d = CHR ''{'' then map_sum id ((#) c) (py_format E ds kwargs)
                else (case parse_field (d # ds) of
                        Inl e \<Rightarrow> Inl e
                      | Inr (nm, conv, spec, rest) \<Rightarrow>
                          (case render_field E kwargs nm conv spec of
                             Inl e \<Rightarrow> Inl e
                           | Inr v \<Rightarrow> map_sum id ((@) v) (py_format E rest kwargs))))
      else map_sum id ((#) c) (py_format E cs kwargs))"
  by pat_completeness auto
termination
proof (relation "measure (\<lambda>(E, s, kwargs). length s)", goal_cases)
  case 1
  show ?case by simp
next
  case (2 E c cs kwargs d ds)
  then show ?case by simp
next
  case (3 E c cs kwargs d ds)
  then show ?case by simp
next
  case (4 E c cs kwargs d ds x nm y conv z spec rest v)
  have name_len: "scan_name acc s = Inr (n, t, r) \<Longrightarrow> length r < length s"
    for acc s n t r
  proof (induction acc s rule: scan_name.induct)
    case (1 acc)
    then show ?case by simp
  next
    case (2 acc c cs)
    have "length (dropWhile (\<lambda>d. d \<noteq> CHR '']'') cs) \<le> length cs"
      by (rule length_dropWhile_le)
    with 2 show ?case by (fastforce split: if_splits)
  qed
  have spec_len: "scan_spec k acc s = Inr (sp, r) \<Longrightarrow> length r < length s"
    for k acc s sp r
    by (induction k acc s rule: scan_spec.induct) (fastforce split: if_splits)+
  have spec_len':
    "map_sum id (\<lambda>(sp, r). (n, cv, sp, r)) (scan_spec k acc s) = Inr (n', cv', sp', r')
       \<Longrightarrow> length r' < length s"
    for n cv k acc s n' cv' sp' r'
    by (cases "scan_spec k acc s") (auto dest: spec_len)
  have field_len: "length r' < length s"
    if pf: "parse_field s = Inr (n', cv', sp', r')" for s n' cv' sp' r'
  proof (cases "scan_name [] s")
    case (Inl e)
    with pf show ?thesis by (simp add: parse_field_def)
  next
    case (Inr x)
    obtain n t r where x: "x = (n, t, r)" by (cases x)
    from Inr x have r: "length r < length s" by (auto dest: name_len)
    consider (close) "t = CHR ''}''" | (bang) "t = CHR ''!''"
      | (colon) "t \<noteq> CHR ''}''" "t \<noteq> CHR ''!''" by blast
    then show ?thesis
    proof cases
      case close
      with pf Inr x r show ?thesis by (simp add: parse_field_def)
    next
      case colon
      with pf Inr x
      have "map_sum id (\<lambda>(sp, r). (n, None, sp, r)) (scan_spec 1 [] r) = Inr (n', cv', sp', r')"
        by (simp add: parse_field_def)
      from spec_len'[OF this] r show ?thesis by simp
    next
      case bang
      show ?thesis
      proof (cases r)
        case Nil
        with bang pf Inr x show ?thesis by (simp add: parse_field_def)
      next
        case r1: (Cons cv r1)
        show ?thesis
        proof (cases r1)
          case Nil
          with r1 bang pf Inr x show ?thesis by (simp add: parse_field_def)
        next
          case r2: (Cons c2 r2)
          consider (close2) "c2 = CHR ''}''" | (colon2) "c2 = CHR '':''"
            | (other) "c2 \<noteq> CHR ''}''" "c2 \<noteq> CHR '':''" by blast
          then show ?thesis
          proof cases
            case close2
            with r2 r1 bang pf Inr x r show ?thesis by (simp add: parse_field_def)
          next
            case other
            with r2 r1 bang pf Inr x show ?thesis by (simp add: parse_field_def)
          next
            case colon2
            with r2 r1 bang pf Inr x
            have "map_sum id (\<lambda>(sp, r). (n, Some cv, sp, r)) (scan_spec 1 [] r2)
                    = Inr (n', cv', sp', r')"
              by (simp add: parse_field_def)
            from spec_len'[OF this] r r2 r1 show ?thesis by simp
          qed
        qed
      qed
    qed
  qed
  from 4 have "parse_field (d # ds) = Inr (nm, conv, spec, rest)" by simp
  from field_len[OF this] 4 show ?case by simp
next
  case (5 E c cs kwargs)
  then show ?case by simp
qed

declare py_format.simps [simp del]

section \<open>The agent\<close>

definition OBSERVATION_TOKEN :: string where
  "OBSERVATION_TOKEN = ''Observation:''"

definition THOUGHT_TOKEN :: string where
  "THOUGHT_TOKEN = ''Thought:''"

definition PROMPT_TEMPLATE :: string where
  \<open>PROMPT_TEMPLATE =
       ''Today is {today} and you can use tools to get new information. \<newline>''
     @ ''Respond to the user's input as best as you can using the following tools:\<newline>''
     @ ''\<newline>''
     @ ''\<newline>''
     @ ''{tool_description}\<newline>''
     @ ''\<newline>''
     @ ''First Thought:\<newline>''
     @ ''Thought: comment on what you want to do next.\<newline>''
     @ ''Action: the action to take, exactly one element of [{tool_names}]\<newline>''
     @ ''Action Input: the input to the action (must be a json loadable dictionary of parameters e.g. {{{{"param": "value"}}}})\<newline>''
     @ ''Observation: the result of the action\<newline>''
     @ ''Next Thought:\<newline>''
     @ ''Thought: Now comment on what you want to do next.\<newline>''
     @ ''Action: the next action to take, exactly one element of [{tool_names}]\<newline>''
     @ ''Action Input: the input to the next action (must be a json loadable dictionary of parameters e.g. {{{{"param": "value"}}}})\<newline>''
     @ ''Observation: the result of the next action\<newline>''
     @ ''... (this Thought/Action/Action Input/Observation repeats until you are sure of the answer)\<newline>''
     @ ''Next Thought:\<newline>''
     @ ''Thought: Now comment on what you want to do next.\<newline>''
     @ ''Action: the next action to take, exactly one element of [{tool_names}]\<newline>''
     @ ''Action Input: the input to the next action (must be a json loadable dictionary of parameters e.g. {{{{"param": "value"}}}})\<newline>''
     @ ''Observation: the result of the next action\<newline>''
     @ ''Next Thought:\<newline>''
     @ ''Thought: I can finally return the final answer\<newline>''
     @ ''Action: Return Final Answer Tool\<newline>''
     @ ''Action Input: The final answer to the task\<newline>''
     @ ''\<newline>''
     @ ''Begin:\<newline>''
     @ ''\<newline>''
     @ ''{goal}\<newline>''
     @ ''\<newline>''
     @ ''First Thought:\<newline>''
     @ ''{previous_responses}\<newline>''\<close>

text \<open>The default of \<open>stop_pattern\<close>.\<close>

definition default_stop_pattern :: "string list" where
  "default_stop_pattern =
     [CHR 0x0A # OBSERVATION_TOKEN, CHR 0x0A # CHR 0x09 # OBSERVATION_TOKEN]"

text \<open>
  Modelled from the spec: the class \<open>ReturnFinalAnswerTool\<close> of \<open>tools/base_tool.py\<close>, which
  is not among the sources. The spec says of it that it is the sentinel tool whose
  selection ends the loop, so it carries the name the loop compares with, and that its
  \<open>run\<close> echoes its single input back as the final answer text. Its other texts, and what
  it does on any other call, are taken from the environment.
\<close>

definition ReturnFinalAnswerTool :: "env \<Rightarrow> 'w tool" where
  "ReturnFinalAnswerTool E =
     \<lparr>name = ''Return Final Answer Tool'',
      description = rfa_description E,
      describe_run = rfa_describe_run E,
      is_final = True,
      run_qualname = rfa_qualname E,
      tool_run = (\<lambda>w kwargs.
        ((case kwargs of [(k, PStr s)] \<Rightarrow> Inr s | _ \<Rightarrow> rfa_other E kwargs), w))\<rparr>"

text \<open>\<open>Agent.__init__\<close>.\<close>

definition Agent ::
  "env \<Rightarrow> ('w \<Rightarrow> (string \<times> string) list \<Rightarrow> string list \<Rightarrow> string \<times> 'w) \<Rightarrow> 'w tool list \<Rightarrow> string
     \<Rightarrow> int \<Rightarrow> string list \<Rightarrow> bool \<Rightarrow> bool \<Rightarrow> 'w agent" where
  "Agent E llm' tools' prompt_template' max_loops' stop_pattern' verbose' debug' =
     \<lparr>llm = llm',
      tools = (if \<not> list_ex is_final tools' then tools' @ [ReturnFinalAnswerTool E]
               else tools'),
      prompt_template = prompt_template',
      max_loops = max_loops',
      stop_pattern = stop_pattern',
      ai_responses = [],
      verbose = verbose',
      debug = debug',
      errors_encountered = []\<rparr>"

text \<open>\<open>Agent.decide_next_action\<close>: one call of the model with a single user message.\<close>

definition decide_next_action ::
  "'w agent \<Rightarrow> 'w \<Rightarrow> string \<Rightarrow> (error + string \<times> string \<times> string) \<times> 'w agent \<times> 'w" where
  "decide_next_action self w prompt =
     (case llm self w [(''user'', prompt)] (stop_pattern self) of
        (generated, w') \<Rightarrow>
          (case parse self generated of
             (Inl e, self') \<Rightarrow> (Inl e, self', w')
           | (Inr (tool, tool_input), self') \<Rightarrow> (Inr (generated, tool, tool_input), self', w')))"

text \<open>\<^verbatim>\<open>re.sub(r'[\x00-\x1F\x7F]', '', tool_input)\<close>.\<close>

definition is_control :: "char \<Rightarrow> bool" where
  "is_control c = ((of_char c :: nat) \<le> 31 \<or> (of_char c :: nat) = 127)"

definition remove_control :: "string \<Rightarrow> string" where
  "remove_control s = filter (\<lambda>c. \<not> is_control c) s"

text \<open>
  The first \<open>try\<close> of the loop body. When \<open>json.loads\<close> raises, \<open>tool_input\<close> is already the
  text without control characters, and stays so. The \<open>except\<close> clause names
  \<open>json.JSONDecodeError\<close>: an exception of another class is not caught, nothing is
  recorded, and it leaves \<open>run\<close>.
\<close>

definition decode_input :: "env \<Rightarrow> 'w agent \<Rightarrow> string \<Rightarrow> (error + pyval) \<times> 'w agent" where
  "decode_input E self tool_input =
     (let cleaned = remove_control tool_input
      in case loads E cleaned of
           Inr v \<Rightarrow> (Inr v, self)
         | Inl (JSONDecodeError e) \<Rightarrow>
             (let self' = self\<lparr>errors_encountered := errors_encountered self @ [JSONDecodeError e]\<rparr>
              in if debug self then (Inl (ValueError (''Error parsing JSON: '' @ e)), self')
                 else (Inr (PStr cleaned), self'))
         | Inl other \<Rightarrow> (Inl other, self))"

text \<open>
  \<open>tool.run(**tool_input)\<close>: the interpreter raises \<open>TypeError\<close>, before the tool is entered,
  when \<open>tool_input\<close> is not a mapping.
\<close>

definition call_tool :: "'w tool \<Rightarrow> 'w \<Rightarrow> pyval \<Rightarrow> ((string \<times> string) + string) \<times> 'w" where
  "call_tool t w v =
     (case v of
        PDict kwargs \<Rightarrow> tool_run t w kwargs
      | _ \<Rightarrow> (Inl (''TypeError'',
                  run_qualname t @ ''() argument after ** must be a mapping, not '' @ type_name v),
             w))"

text \<open>The second \<open>try\<close> of the loop body.\<close>

definition dispatch ::
  "'w agent \<Rightarrow> 'w tool \<Rightarrow> 'w \<Rightarrow> pyval \<Rightarrow> (error + string) \<times> 'w agent \<times> 'w" where
  "dispatch self t w v =
     (case call_tool t w v of
        (Inr tool_result, w') \<Rightarrow> (Inr tool_result, self, w')
      | (Inl (cls, msg), w') \<Rightarrow>
          (let self' = self\<lparr>errors_encountered := errors_encountered self @ [ToolException cls msg]\<rparr>
           in if debug self then (Inl (ValueError (''Error from tool: '' @ msg)), self', w')
              else (Inr (''Error from tool: '' @ msg), self', w')))"

datatype outcome = Next | Returned string | Raised error

type_synonym 'w state = "'w agent \<times> task \<times> 'w \<times> string list"

text \<open>
  The end of the loop body, from the observation on: the turn is appended to the history
  of the agent (stripped) and to the local list (as it is), and the comparison of the
  tool name with the literal decides between returning and going round again.
\<close>

definition observe :: "string \<Rightarrow> string \<Rightarrow> string \<Rightarrow> 'w state \<Rightarrow> outcome \<times> 'w state" where
  "observe generated tool tool_result st =
     (case st of (self, task, w, previous_responses) \<Rightarrow>
        (let generated' = generated @ [CHR 0x0A] @ OBSERVATION_TOKEN @ '' '' @ tool_result
               @ [CHR 0x0A] @ ''Next Thought:'';
             self' = self\<lparr>ai_responses := ai_responses self @ [strip generated']\<rparr>;
             previous_responses' = previous_responses @ [generated']
         in if tool = ''Return Final Answer Tool''
            then (Returned tool_result,
                  (self', task\<lparr>raw_output := Some tool_result, completed := True\<rparr>, w,
                   previous_responses'))
            else (Next, (self', task, w, previous_responses'))))"

text \<open>
  One pass through the body of the \<open>while\<close> loop of \<open>Agent.run\<close>. The state is the agent,
  the task, the world and the local list \<open>previous_responses\<close>; \<open>prompt\<close> is the template
  after the first \<open>format\<close>.
\<close>

definition iteration :: "env \<Rightarrow> string \<Rightarrow> 'w state \<Rightarrow> outcome \<times> 'w state" where
  "iteration E prompt st =
     (case st of (self, task, w, previous_responses) \<Rightarrow>
        (case py_format E prompt
                [(''previous_responses'', strip (join [CHR 0x0A] previous_responses))] of
           Inl e \<Rightarrow> (Raised e, st)
         | Inr curr_prompt \<Rightarrow>
             (case decide_next_action self w curr_prompt of
                (Inl e, self1, w1) \<Rightarrow> (Raised e, (self1, task, w1, previous_responses))
              | (Inr (generated, tool, tool_input), self1, w1) \<Rightarrow>
                  (case tool_by_names self1 tool of
                     None \<Rightarrow>
                       (Raised (ValueError (''Unknown tool: '' @ tool)),
                        (self1, task, w1, previous_responses))
                   | Some t \<Rightarrow>
                       (case decode_input E self1 tool_input of
                          (Inl e, self2) \<Rightarrow> (Raised e, (self2, task, w1, previous_responses))
                        | (Inr v, self2) \<Rightarrow>
                            (case dispatch self2 t w1 v of
                               (Inl e, self3, w2) \<Rightarrow>
                                 (Raised e, (self3, task, w2, previous_responses))
                             | (Inr tool_result, self3, w2) \<Rightarrow>
                                 observe generated tool tool_result
                                   (self3, task, w2, previous_responses)))))))"

text \<open>
  The \<open>while\<close> loop. The result is what \<open>run\<close> raises (\<open>Inl\<close>) or returns: \<open>Inr None\<close> is the
  return without a value when the loop runs out.
\<close>

function run_loop ::
  "env \<Rightarrow> string \<Rightarrow> int \<Rightarrow> 'w state \<Rightarrow> (error + string option) \<times> 'w state" where
  "run_loop E prompt num_loops st =
     (if num_loops < max_loops (fst st)
      then (case iteration E prompt st of
              (Next, st') \<Rightarrow> run_loop E prompt (num_loops + 1) st'
            | (Returned tool_result, st') \<Rightarrow> (Inr (Some tool_result), st')
            | (Raised e, st') \<Rightarrow> (Inl e, st'))
      else (Inr None, st))"
  by pat_completeness auto
termination
proof (relation "measure (\<lambda>(E, prompt, num_loops, st). nat (max_loops (fst st) - num_loops))",
    goal_cases)
  case 1
  show ?case by simp
next
  case (2 E prompt num_loops st x st')
  have parse_keeps: "max_loops self' = max_loops self"
    if "parse self g = (r, self')" for self :: "'a agent" and g r self'
    using that by (auto simp: parse_def Let_def split: option.splits if_splits prod.splits)
  have decide_keeps: "max_loops self' = max_loops self"
    if "decide_next_action self w p = (r, self', w')" for self :: "'a agent" and w p r self' w'
    using that
    by (auto simp: decide_next_action_def split: prod.splits sum.splits dest: parse_keeps)
  have decode_keeps: "max_loops self' = max_loops self"
    if "decode_input E self i = (r, self')" for E and self :: "'a agent" and i r self'
    using that
    by (auto simp: decode_input_def Let_def split: sum.splits error.splits if_splits)
  have dispatch_keeps: "max_loops self' = max_loops self"
    if "dispatch self t w v = (r, self', w')" for self :: "'a agent" and t w v r self' w'
    using that by (auto simp: dispatch_def Let_def split: sum.splits if_splits prod.splits)
  obtain self task w prev where st: "st = (self, task, w, prev)" by (cases st)
  have "max_loops (fst st') = max_loops (fst st)"
    using 2(2) 2(3) unfolding st iteration_def observe_def
    by (auto simp: Let_def split: prod.splits sum.splits option.splits if_splits
        dest!: decide_keeps decode_keeps dispatch_keeps)
  with 2(1) show ?case by simp
qed

declare run_loop.simps [simp del]

text \<open>\<open>Agent.run\<close>.\<close>

definition run :: "env \<Rightarrow> 'w agent \<Rightarrow> task \<Rightarrow> 'w \<Rightarrow> (error + string option) \<times> 'w state" where
  "run E self task w =
     (let previous_responses = ai_responses self
      in case py_format E (prompt_template self)
                [(''today'', today E),
                 (''tool_description'', tool_description self),
                 (''tool_names'', tool_names self),
                 (''goal'', goal task),
                 (''previous_responses'', ''{previous_responses}'')] of
           Inl e \<Rightarrow> (Inl e, (self, task, w, previous_responses))
         | Inr prompt \<Rightarrow> run_loop E prompt 0 (self, task, w, previous_responses))"


section \<open>Fixtures\<close>

text \<open>
  Concrete collaborators for the examples below. \<open>example_loads\<close> agrees with \<open>json.loads\<close>
  of CPython 3.11 on the six texts the examples decode: two objects, the empty object,
  the number 42, a number of 4301 digits, which is beyond the limit of the conversion
  of integers and raises \<open>ValueError\<close>, and a text that is not JSON, for which the decoder
  reports that it expected a value at the first character.
  \<open>example_format_field\<close> resolves the first part of a field name as \<open>str.format\<close> does
  (\<open>IndexError\<close> for an empty or numeric one, of up to 18 digits, and \<open>KeyError\<close> for one that
  is no keyword) and answers with the value of a keyword that is found, which is what the
  conversion \<open>s\<close> gives; the examples have no field with a conversion, a format spec or
  an access. The tools of the examples are classes of the module \<open>__main__\<close>, and the
  default final-answer tool is the class of \<open>squad_goals.tools.base_tool\<close>.
\<close>

definition example_text :: string where
  \<open>example_text =
     ''Thought: x\<newline>Action: Search\<newline>Action Input: {"q": "cats"}\<newline>''\<close>

definition big_number :: string where
  "big_number = CHR ''1'' # replicate 4300 (CHR ''1'')"

definition example_loads :: "string \<Rightarrow> error + pyval" where
  \<open>example_loads s =
     (if s = ''{"q": "cats"}'' then Inr (PDict [(''q'', PStr ''cats'')])
      else if s = ''{"answer": "42"}'' then Inr (PDict [(''answer'', PStr ''42'')])
      else if s = ''{}'' then Inr (PDict [])
      else if s = ''42'' then Inr (PInt 42)
      else if s = big_number
      then Inl (ValueError (''Exceeds the limit (4300 digits) for integer string conversion: ''
             @ ''value has 4301 digits; use sys.set_int_max_str_digits() to increase the limit''))
      else Inl (JSONDecodeError ''Expecting value: line 1 column 1 (char 0)''))\<close>

definition example_format_field ::
  "string \<Rightarrow> char option \<Rightarrow> string \<Rightarrow> (string \<times> string) list \<Rightarrow> error + string" where
  "example_format_field nm conv spec kwargs =
     (let first = takeWhile (\<lambda>c. c \<noteq> CHR ''.'' \<and> c \<noteq> CHR ''['') nm
      in if all_digits first
         then Inl (IndexError (''Replacement index ''
                @ (case dropWhile (\<lambda>c. c = CHR ''0'') first of [] \<Rightarrow> ''0'' | c # cs \<Rightarrow> c # cs)
                @ '' out of range for positional args tuple''))
         else (case map_of kwargs first of None \<Rightarrow> Inl (KeyError first) | Some v \<Rightarrow> Inr v))"

definition example_env :: env where
  "example_env =
     \<lparr>today = ''2026-11-04'',
      loads = example_loads,
      format_field = example_format_field,
      rfa_description = ''Return the final answer'',
      rfa_describe_run = ''run(answer: str)'',
      rfa_qualname = ''squad_goals.tools.base_tool.ReturnFinalAnswerTool.run'',
      rfa_other = (\<lambda>kwargs. Inl (''TypeError'', ''run() takes one text argument''))\<rparr>"

text \<open>A model that answers every prompt with the same text; its world counts the calls.\<close>

definition fixed_llm ::
  "string \<Rightarrow> nat \<Rightarrow> (string \<times> string) list \<Rightarrow> string list \<Rightarrow> string \<times> nat" where
  "fixed_llm text w messages stop = (text, w + 1)"

text \<open>A tool that always answers, and one whose \<open>run\<close> raises \<open>ValueError("bad param")\<close>.\<close>

definition search_tool :: "nat tool" where
  "search_tool =
     \<lparr>name = ''Search'', description = ''Search the web'', describe_run = ''run(q: str)'',
      is_final = False, run_qualname = ''__main__.SearchTool.run'',
      tool_run = (\<lambda>w kwargs. (Inr ''3 results'', w))\<rparr>"

definition failing_tool :: "string \<Rightarrow> bool \<Rightarrow> nat tool" where
  "failing_tool nm fin =
     \<lparr>name = nm, description = ''Fails'', describe_run = ''run(param: str)'',
      is_final = fin, run_qualname = ''__main__.FailingTool.run'',
      tool_run = (\<lambda>w kwargs. (Inl (''ValueError'', ''bad param''), w))\<rparr>"

definition short_template :: string where
  "short_template = ''{goal}\<newline>{previous_responses}''"

definition example_task :: task where
  "example_task = \<lparr>goal = ''Find cats'', raw_output = None, completed = False\<rparr>"

definition example_agent :: "bool \<Rightarrow> nat agent" where
  "example_agent dbg =
     Agent example_env (fixed_llm example_text) [search_tool] short_template 1
       default_stop_pattern False dbg"

text \<open>An agent with the short template, the fixed model and the example environment.\<close>

definition test_agent :: "string \<Rightarrow> nat tool list \<Rightarrow> int \<Rightarrow> bool \<Rightarrow> nat agent" where
  "test_agent text ts n dbg =
     Agent example_env (fixed_llm text) ts short_template n default_stop_pattern False dbg"

text \<open>Texts for the fixed model to answer with.\<close>

definition text_unknown :: string where
  "text_unknown = ''Action: Fly\<newline>Action Input: {}''"

definition text_bell :: string where
  \<open>text_bell = ''Action: Search\<newline>Action Input: {"q": "cats"}'' @ [CHR 0x07]\<close>

definition text_plain :: string where
  "text_plain = ''Action: Search\<newline>Action Input: cats''"

definition text_big :: string where
  "text_big = ''Action: Search\<newline>Action Input: '' @ big_number"

definition text_bracket :: string where
  "text_bracket = ''Action: [Search]\<newline>Action Input: x''"

definition text_brackets :: string where
  "text_brackets = ''Action: ['' @ ''[Search]'' @ '']\<newline>Action Input: x''"

definition text_quotes :: string where
  "text_quotes = ''Action: Search\<newline>Action Input: '' @ [CHR 0x22, CHR 0x22, CHR ''x'', CHR 0x22, CHR 0x22]"

definition text_fail :: string where
  "text_fail = ''Action: Fail\<newline>Action Input: {}''"

definition text_final_empty :: string where
  "text_final_empty = ''Action: Return Final Answer Tool\<newline>Action Input: {}''"

definition text_final_42 :: string where
  \<open>text_final_42 = ''Action: Return Final Answer Tool\<newline>Action Input: {"answer": "42"}''\<close>

definition text_final_bare :: string where
  "text_final_bare = ''Action: Return Final Answer Tool\<newline>Action Input: 42''"

definition text_done :: string where
  \<open>text_done = ''Action: Done\<newline>Action Input: {"answer": "42"}''\<close>

text \<open>A tool of the final-answer type under another name, and a tool of another type under
  the name of the final-answer tool.\<close>

definition done_tool :: "nat tool" where
  "done_tool = (ReturnFinalAnswerTool example_env)\<lparr>name := ''Done''\<rparr>"

definition impostor_tool :: "nat tool" where
  "impostor_tool = search_tool\<lparr>name := ''Return Final Answer Tool''\<rparr>"

text \<open>A task whose goal is a single opening brace.\<close>

definition brace_task :: task where
  "brace_task = \<lparr>goal = ''{'', raw_output = None, completed = False\<rparr>"


section \<open>The action parser: properties\<close>

lemma last_dropWhile: "dropWhile P xs \<noteq> [] \<Longrightarrow> last (dropWhile P xs) = last xs"
  by (induction xs) (auto split: if_splits)

lemma strip_chars_ends:
  assumes "strip_chars P s \<noteq> []"
  shows "\<not> P (hd (strip_chars P s))" and "\<not> P (last (strip_chars P s))"
proof -
  let ?u = "dropWhile P s"
  let ?v = "dropWhile P (rev ?u)"
  from assms have v: "?v \<noteq> []" by (simp add: strip_chars_def)
  have u: "?u \<noteq> []"
  proof
    assume a: "?u = []"
    have "?v = dropWhile P (rev [])" by (simp only: a)
    with v show False by simp
  qed
  have "hd (strip_chars P s) = last ?v" by (simp add: strip_chars_def hd_rev)
  also have "\<dots> = last (rev ?u)" using v by (rule last_dropWhile)
  also have "\<dots> = hd ?u" using u by (simp add: last_rev)
  finally show "\<not> P (hd (strip_chars P s))" using u hd_dropWhile[of P s] by simp
  have "last (strip_chars P s) = hd ?v" by (simp add: strip_chars_def last_rev)
  then show "\<not> P (last (strip_chars P s))" using v hd_dropWhile[of P "rev ?u"] by simp
qed

lemma parse_matched:
  "re_search g = Some (g1, g2) \<Longrightarrow>
   parse self g = (Inr (strip g1, strip_chars is_dquote (strip_chars is_blank g2)), self)"
  by (simp add: parse_def)

lemma parse_unmatched:
  "re_search g = None \<Longrightarrow>
   parse self g =
     ((if debug self
       then Inl (ValueError (''Output of LLM is not parsable for next tool use: `'' @ g @ ''`''))
       else Inl (AttributeError (CHR 0x27 # ''NoneType'' @ CHR 0x27 # '' object has no attribute ''
                        @ CHR 0x27 # ''group'' @ [CHR 0x27]))),
      self\<lparr>errors_encountered := errors_encountered self @
         [ValueError (''Output of LLM is not parsable for next tool use: `'' @ g @ ''`'')]\<rparr>)"
  by (simp add: parse_def Let_def)

lemma parse_Inr_iff:
  "fst (parse self g) = Inr (tool, inp) \<longleftrightarrow>
   (\<exists>g1 g2. re_search g = Some (g1, g2) \<and> tool = strip g1
      \<and> inp = strip_chars is_dquote (strip_chars is_blank g2))"
  by (cases "re_search g") (auto simp: parse_matched parse_unmatched)

lemma parse_Inr_self: "fst (parse self g) = Inr x \<Longrightarrow> parse self g = (Inr x, self)"
  by (cases "re_search g") (auto simp: parse_matched parse_unmatched split: if_splits)

lemma re_search_example:
  \<open>re_search example_text = Some (''Search'', ''{"q": "cats"}\<newline>'')\<close>
  unfolding example_text_def by code_simp

lemma re_search_hello: "re_search ''hello'' = None"
  by code_simp

lemma strip_example:
  \<open>strip ''Search'' = ''Search''\<close>
  \<open>strip_chars is_dquote (strip_chars is_blank ''{"q": "cats"}\<newline>'') = ''{"q": "cats"}\<newline>''\<close>
  by code_simp+

lemma strip_chars_id:
  assumes "s \<noteq> []" "\<not> P (hd s)" "\<not> P (last s)"
  shows "strip_chars P s = s"
proof -
  from assms(1) assms(2) have 1: "dropWhile P s = s" by (cases s) auto
  from assms(1) assms(3) have 2: "dropWhile P (rev s) = rev s"
    by (cases "rev s") (auto simp: hd_rev)
  show ?thesis by (simp add: strip_chars_def 1 2)
qed

lemma parse_eval:
  "map_option (\<lambda>(g1, g2). (strip g1, strip_chars is_dquote (strip_chars is_blank g2)))
     (re_search g) = Some x \<Longrightarrow> fst (parse self g) = Inr x"
  by (cases "re_search g") (auto simp: parse_matched)

lemma parse_bracket_examples:
  "fst (parse self text_bracket) = Inr (''Search'', ''x'')"
  "fst (parse self text_brackets) = Inr (''[Search]'', ''x'')"
  "fst (parse self text_quotes) = Inr (''Search'', ''x'')"
proof -
  show "fst (parse self text_bracket) = Inr (''Search'', ''x'')"
    by (rule parse_eval) (unfold text_bracket_def, code_simp)
  show "fst (parse self text_brackets) = Inr (''[Search]'', ''x'')"
    by (rule parse_eval) (unfold text_brackets_def, code_simp)
  show "fst (parse self text_quotes) = Inr (''Search'', ''x'')"
    by (rule parse_eval) (unfold text_quotes_def, code_simp)
qed

subsection \<open>The shape of a match\<close>

lemma startswith_append: "startswith s p \<Longrightarrow> \<exists>r. s = p @ r"
  by (induction s p rule: startswith.induct) auto

lemma m_literal_shape:
  assumes "m_literal s = Some g2"
  shows "\<exists>ws. s = ''Action Input:'' @ ws @ g2 \<and> (\<forall>x \<in> set ws. isspace x)
           \<and> (g2 \<noteq> [] \<longrightarrow> \<not> isspace (hd g2))"
proof -
  from assms have sw: "startswith s ''Action Input:''"
    by (auto simp: m_literal_def split: if_splits)
  from startswith_append[OF sw] obtain r where s: "s = ''Action Input:'' @ r" ..
  from assms have g2: "g2 = dropWhile isspace r"
    unfolding s by (auto simp: m_literal_def m_input_def split: if_splits)
  have a: "''Action Input:'' @ r = ''Action Input:'' @ takeWhile isspace r @ g2"
    unfolding g2 by simp
  have b: "\<forall>x \<in> set (takeWhile isspace r). isspace x" by (auto dest: set_takeWhileD)
  have c: "g2 \<noteq> [] \<longrightarrow> \<not> isspace (hd g2)" unfolding g2 by (auto simp: hd_dropWhile)
  show ?thesis unfolding s by (rule exI[of _ "takeWhile isspace r"]) (intro conjI a b c)
qed

lemma m_literal_newline: "m_literal (CHR 0x0A # cs) = None"
  by (simp add: m_literal_def)

lemma m_literal_bracket:
  "m_literal (CHR '']'' # cs) = None" "m_literal (CHR ''['' # cs) = None"
  by (simp_all add: m_literal_def)

text \<open>The greedy pieces never give a character back.\<close>

lemma m_newlines_eq: "m_newlines s = m_literal (dropWhile (\<lambda>c. c = CHR 0x0A) s)"
proof (induction s)
  case Nil
  show ?case by simp
next
  case (Cons c cs)
  show ?case
  proof (cases "c = CHR 0x0A")
    case True
    with Cons show ?thesis
      by (cases "m_literal (dropWhile (\<lambda>c. c = CHR 0x0A) cs)") (simp_all add: m_literal_newline)
  next
    case False
    then show ?thesis by simp
  qed
qed

lemma m_close_bracket: "m_close (CHR '']'' # cs) = m_newlines cs"
  by (cases "m_newlines cs") (simp_all add: m_literal_bracket)

lemma m_name_acc:
  "m_name acc s = map_option (\<lambda>(n, i). (rev acc @ n, i)) (m_name [] s)"
proof (induction s arbitrary: acc)
  case Nil
  show ?case by (simp split: option.splits)
next
  case (Cons c cs)
  show ?case
  proof (cases "m_close (c # cs)")
    case (Some g)
    then show ?thesis by simp
  next
    case None
    have "m_name acc (c # cs) = m_name (c # acc) cs" using None by simp
    also have "\<dots> = map_option (\<lambda>(n, i). (rev (c # acc) @ n, i)) (m_name [] cs)"
      by (rule Cons)
    finally have 1: "m_name acc (c # cs)
        = map_option (\<lambda>(n, i). (rev acc @ c # n, i)) (m_name [] cs)"
      by simp
    have "m_name [] (c # cs) = m_name [c] cs" using None by simp
    also have "\<dots> = map_option (\<lambda>(n, i). (rev [c] @ n, i)) (m_name [] cs)"
      by (rule Cons)
    finally have 2: "m_name [] (c # cs) = map_option (\<lambda>(n, i). (c # n, i)) (m_name [] cs)"
      by simp
    show ?thesis unfolding 1 2 by (cases "m_name [] cs") auto
  qed
qed

lemma m_open_bracket: "m_open (CHR ''['' # cs) = m_name [] cs"
proof (cases "m_name [] cs")
  case (Some r)
  then show ?thesis by simp
next
  case None
  have "m_close (CHR ''['' # cs) = None" by (simp add: m_literal_bracket)
  then have "m_name [] (CHR ''['' # cs) = m_name ''['' cs" by simp
  also have "\<dots> = None" using None by (subst m_name_acc) simp
  finally show ?thesis using None by simp
qed

lemma m_name_shape:
  "m_name acc s = Some (g1, g2) \<Longrightarrow>
     \<exists>n s'. g1 = rev acc @ n \<and> s = n @ s' \<and> m_close s' = Some g2"
proof (induction s arbitrary: acc)
  case Nil
  then have "g1 = rev acc @ [] \<and> [] = [] @ [] \<and> m_close [] = Some g2"
    by (auto split: option.splits)
  then show ?case by (rule_tac x = "[]" in exI, rule_tac x = "[]" in exI)
next
  case (Cons c cs)
  show ?case
  proof (cases "m_close (c # cs)")
    case (Some g)
    with Cons.prems have "g1 = rev acc @ [] \<and> c # cs = [] @ (c # cs) \<and> m_close (c # cs) = Some g2"
      by simp
    then show ?thesis by (rule_tac x = "[]" in exI, rule_tac x = "c # cs" in exI)
  next
    case None
    with Cons.prems have "m_name (c # acc) cs = Some (g1, g2)" by simp
    from Cons.IH[OF this] obtain n s' where "g1 = rev (c # acc) @ n" "cs = n @ s'"
      "m_close s' = Some g2" by (elim exE conjE)
    then have "g1 = rev acc @ (c # n) \<and> c # cs = (c # n) @ s' \<and> m_close s' = Some g2" by simp
    then show ?thesis by (rule_tac x = "c # n" in exI, rule_tac x = s' in exI)
  qed
qed

lemma re_search_suffix:
  "re_search g = Some r \<Longrightarrow> \<exists>pre s. g = pre @ s \<and> m_action s = Some r"
proof (induction g)
  case Nil
  then have "[] = [] @ [] \<and> m_action [] = Some r" by simp
  then show ?case by (rule_tac x = "[]" in exI, rule_tac x = "[]" in exI)
next
  case (Cons c cs)
  show ?case
  proof (cases "m_action (c # cs)")
    case (Some x)
    with Cons.prems have "c # cs = [] @ (c # cs) \<and> m_action (c # cs) = Some r" by simp
    then show ?thesis by (rule_tac x = "[]" in exI, rule_tac x = "c # cs" in exI)
  next
    case None
    with Cons.prems have "re_search cs = Some r" by simp
    from Cons.IH[OF this] obtain pre s where "cs = pre @ s" "m_action s = Some r"
      by (elim exE conjE)
    then have "c # cs = (c # pre) @ s \<and> m_action s = Some r" by simp
    then show ?thesis by (rule_tac x = "c # pre" in exI, rule_tac x = s in exI)
  qed
qed

lemma re_search_shape:
  assumes "re_search g = Some (g1, g2)"
  shows "\<exists>pre ob cb nl ws.
           g = pre @ ''Action: '' @ ob @ g1 @ cb @ nl @ ''Action Input:'' @ ws @ g2
           \<and> (ob = [] \<or> ob = ''['') \<and> (cb = [] \<or> cb = '']'')
           \<and> set nl \<subseteq> {CHR 0x0A} \<and> (\<forall>x \<in> set ws. isspace x)
           \<and> (g2 \<noteq> [] \<longrightarrow> \<not> isspace (hd g2))"
proof -
  from re_search_suffix[OF assms] obtain pre s
    where 1: "g = pre @ s" "m_action s = Some (g1, g2)" by (elim exE conjE)
  from 1(2) have sw: "startswith s ''Action: ''"
    by (auto simp: m_action_def split: if_splits)
  from startswith_append[OF sw] obtain r where 2: "s = ''Action: '' @ r" ..
  from 1(2) have mo: "m_open r = Some (g1, g2)"
    unfolding 2 by (auto simp: m_action_def split: if_splits)
  define ob where "ob = (if r \<noteq> [] \<and> hd r = CHR ''['' then ''['' else [])"
  define s1 where "s1 = (if r \<noteq> [] \<and> hd r = CHR ''['' then tl r else r)"
  have 3: "r = ob @ s1" "ob = [] \<or> ob = ''[''" "m_open r = m_name [] s1"
  proof -
    show "r = ob @ s1" unfolding ob_def s1_def by (cases r) simp_all
    show "ob = [] \<or> ob = ''[''" unfolding ob_def by simp
    show "m_open r = m_name [] s1"
    proof (cases r)
      case Nil
      then show ?thesis unfolding s1_def by simp
    next
      case (Cons c cs)
      show ?thesis
      proof (cases "c = CHR ''[''")
        case True
        with Cons show ?thesis unfolding s1_def by (simp add: m_open_bracket del: m_open.simps)
      next
        case False
        with Cons show ?thesis unfolding s1_def by simp
      qed
    qed
  qed
  from mo 3(3) have "m_name [] s1 = Some (g1, g2)" by simp
  from m_name_shape[OF this] obtain s2
    where 4: "s1 = g1 @ s2" "m_close s2 = Some g2" by auto
  define cb where "cb = (if s2 \<noteq> [] \<and> hd s2 = CHR '']'' then '']'' else [])"
  define s3 where "s3 = (if s2 \<noteq> [] \<and> hd s2 = CHR '']'' then tl s2 else s2)"
  have 5: "s2 = cb @ s3" "cb = [] \<or> cb = '']''" "m_close s2 = m_newlines s3"
  proof -
    show "s2 = cb @ s3" unfolding cb_def s3_def by (cases s2) simp_all
    show "cb = [] \<or> cb = '']''" unfolding cb_def by simp
    show "m_close s2 = m_newlines s3"
    proof (cases s2)
      case Nil
      then show ?thesis unfolding s3_def by simp
    next
      case (Cons c cs)
      show ?thesis
      proof (cases "c = CHR '']''")
        case True
        with Cons show ?thesis unfolding s3_def by (simp add: m_close_bracket del: m_close.simps)
      next
        case False
        with Cons show ?thesis unfolding s3_def by simp
      qed
    qed
  qed
  define nl where "nl = takeWhile (\<lambda>c. c = CHR 0x0A) s3"
  define s4 where "s4 = dropWhile (\<lambda>c. c = CHR 0x0A) s3"
  have 6: "s3 = nl @ s4" "set nl \<subseteq> {CHR 0x0A}" "m_newlines s3 = m_literal s4"
    unfolding nl_def s4_def by (auto simp: m_newlines_eq dest: set_takeWhileD)
  from 4(2) 5(3) 6(3) have "m_literal s4 = Some g2" by simp
  from m_literal_shape[OF this] obtain ws
    where 7: "s4 = ''Action Input:'' @ ws @ g2" "\<forall>x \<in> set ws. isspace x"
      "g2 \<noteq> [] \<longrightarrow> \<not> isspace (hd g2)" by (elim exE conjE)
  have "g = pre @ ''Action: '' @ ob @ g1 @ cb @ nl @ ''Action Input:'' @ ws @ g2"
    by (simp only: 1(1) 2 3(1) 4(1) 5(1) 6(1) 7(1) append_assoc)
  with 3(2) 5(2) 6(2) 7(2) 7(3) show ?thesis
    by (rule_tac x = pre in exI, rule_tac x = ob in exI, rule_tac x = cb in exI,
        rule_tac x = nl in exI, rule_tac x = ws in exI) (intro conjI)
qed

text \<open>
  C1. A generated text without an \<open>Action:\<close>/\<open>Action Input:\<close> pair: the parse failure is
  recorded in \<open>errors_encountered\<close>; in debug mode \<open>_parse\<close> raises that \<open>ValueError\<close>; in
  non-debug mode it does not return the corrective tool name but raises
  \<open>AttributeError\<close>, from \<open>match.group(1)\<close> with \<open>match\<close> being \<open>None\<close>.
\<close>

theorem parse_without_action:
  assumes "re_search generated = None"
  shows "parse self generated =
     ((if debug self
       then Inl (ValueError
              (''Output of LLM is not parsable for next tool use: `'' @ generated @ ''`''))
       else Inl (AttributeError (CHR 0x27 # ''NoneType'' @ CHR 0x27 # '' object has no attribute ''
                        @ CHR 0x27 # ''group'' @ [CHR 0x27]))),
      self\<lparr>errors_encountered := errors_encountered self @
         [ValueError
            (''Output of LLM is not parsable for next tool use: `'' @ generated @ ''`'')]\<rparr>)"
  using assms by (rule parse_unmatched)

theorem parse_without_action_witness:
  "re_search ''hello'' = None
   \<and> fst (parse (example_agent False) ''hello'') =
       Inl (AttributeError (CHR 0x27 # ''NoneType'' @ CHR 0x27 # '' object has no attribute ''
                        @ CHR 0x27 # ''group'' @ [CHR 0x27]))
   \<and> errors_encountered (snd (parse (example_agent False) ''hello'')) =
       [ValueError ''Output of LLM is not parsable for next tool use: `hello`'']
   \<and> fst (parse (example_agent True) ''hello'') =
       Inl (ValueError ''Output of LLM is not parsable for next tool use: `hello`'')"
  using parse_without_action[OF re_search_hello, of "example_agent False"]
    parse_without_action[OF re_search_hello, of "example_agent True"] re_search_hello
  by (simp add: example_agent_def Agent_def)

text \<open>
  C4. Parsing the example text gives the tool name \<open>Search\<close> and the input with its final
  newline kept. A result of the parser is the first group stripped of surrounding white
  space and the second group stripped of surrounding blanks (0x20 only) and then of all
  leading and trailing double quotes: the name neither starts nor ends with white space,
  the input neither starts nor ends with a double quote, and \<open>""x""\<close> gives \<open>x\<close>. Of
  brackets, the pattern drops one \<open>[\<close> right after \<open>Action: \<close> and one \<open>]\<close> right after the
  first group, whenever there is one, and no more: \<open>[Search]\<close> gives \<open>Search\<close>, and
  \<open>[Search]\<close> in a second pair of brackets gives \<open>[Search]\<close>. After the group come newlines only, then
  \<open>Action Input:\<close>, white space, and the second group to the end of the text.
\<close>

theorem parse_example:
  \<open>fst (parse self example_text) = Inr (''Search'', ''{"q": "cats"}\<newline>'')
   \<and> fst (parse self text_bracket) = Inr (''Search'', ''x'')
   \<and> fst (parse self text_brackets) = Inr (''[Search]'', ''x'')
   \<and> fst (parse self text_quotes) = Inr (''Search'', ''x'')
   \<and> (\<forall>g tool inp. fst (parse self g) = Inr (tool, inp) \<longleftrightarrow>
          (\<exists>g1 g2. re_search g = Some (g1, g2) \<and> tool = strip g1
             \<and> inp = strip_chars is_dquote (strip_chars is_blank g2)))
   \<and> (\<forall>g g1 g2. re_search g = Some (g1, g2) \<longrightarrow>
          (\<exists>pre ob cb nl ws.
              g = pre @ ''Action: '' @ ob @ g1 @ cb @ nl @ ''Action Input:'' @ ws @ g2
              \<and> (ob = [] \<or> ob = ''['') \<and> (cb = [] \<or> cb = '']'')
              \<and> set nl \<subseteq> {CHR 0x0A} \<and> (\<forall>x \<in> set ws. isspace x)
              \<and> (g2 \<noteq> [] \<longrightarrow> \<not> isspace (hd g2))))
   \<and> (\<forall>cs. m_open (CHR ''['' # cs) = m_name [] cs)
   \<and> (\<forall>cs. m_close (CHR '']'' # cs) = m_newlines cs)
   \<and> (\<forall>g tool inp. fst (parse self g) = Inr (tool, inp) \<longrightarrow>
          (tool \<noteq> [] \<longrightarrow> \<not> isspace (hd tool) \<and> \<not> isspace (last tool))
        \<and> (inp \<noteq> [] \<longrightarrow> \<not> is_dquote (hd inp) \<and> \<not> is_dquote (last inp)))\<close>
proof (intro conjI allI impI)
  show \<open>fst (parse self example_text) = Inr (''Search'', ''{"q": "cats"}\<newline>'')\<close>
    by (simp add: parse_matched[OF re_search_example] strip_example)
next
  show "fst (parse self text_bracket) = Inr (''Search'', ''x'')"
    "fst (parse self text_brackets) = Inr (''[Search]'', ''x'')"
    "fst (parse self text_quotes) = Inr (''Search'', ''x'')"
    by (rule parse_bracket_examples)+
next
  fix g tool inp
  show "fst (parse self g) = Inr (tool, inp) \<longleftrightarrow>
          (\<exists>g1 g2. re_search g = Some (g1, g2) \<and> tool = strip g1
             \<and> inp = strip_chars is_dquote (strip_chars is_blank g2))"
    by (rule parse_Inr_iff)
next
  fix g g1 g2 assume "re_search g = Some (g1, g2)"
  then show "\<exists>pre ob cb nl ws.
              g = pre @ ''Action: '' @ ob @ g1 @ cb @ nl @ ''Action Input:'' @ ws @ g2
              \<and> (ob = [] \<or> ob = ''['') \<and> (cb = [] \<or> cb = '']'')
              \<and> set nl \<subseteq> {CHR 0x0A} \<and> (\<forall>x \<in> set ws. isspace x)
              \<and> (g2 \<noteq> [] \<longrightarrow> \<not> isspace (hd g2))"
    by (rule re_search_shape)
next
  fix cs
  show "m_open (CHR ''['' # cs) = m_name [] cs" by (rule m_open_bracket)
  show "m_close (CHR '']'' # cs) = m_newlines cs" by (rule m_close_bracket)
next
  fix g tool inp assume p: "fst (parse self g) = Inr (tool, inp)" and "tool \<noteq> []"
  then show "\<not> isspace (hd tool)" "\<not> isspace (last tool)"
    using strip_chars_ends[of isspace] by (auto simp: parse_Inr_iff strip_def)
next
  fix g tool inp assume p: "fst (parse self g) = Inr (tool, inp)" and "inp \<noteq> []"
  then show "\<not> is_dquote (hd inp)" "\<not> is_dquote (last inp)"
    using strip_chars_ends[of is_dquote] by (auto simp: parse_Inr_iff)
qed

theorem parse_example_witness:
  \<open>fst (parse (example_agent False) example_text) = Inr (''Search'', ''{"q": "cats"}\<newline>'')
   \<and> fst (parse (example_agent False) text_brackets) = Inr (''[Search]'', ''x'')
   \<and> re_search example_text = Some (''Search'', ''{"q": "cats"}\<newline>'')
   \<and> (\<exists>pre ob cb nl ws.
         example_text = pre @ ''Action: '' @ ob @ ''Search'' @ cb @ nl @ ''Action Input:'' @ ws
           @ ''{"q": "cats"}\<newline>''
         \<and> (ob = [] \<or> ob = ''['') \<and> (cb = [] \<or> cb = '']'') \<and> set nl \<subseteq> {CHR 0x0A})
   \<and> \<not> isspace (hd ''Search'') \<and> \<not> isspace (last ''Search'')
   \<and> \<not> is_dquote (hd ''{"q": "cats"}\<newline>'') \<and> \<not> is_dquote (last ''{"q": "cats"}\<newline>'')\<close>
proof -
  note t = parse_example[of "example_agent False"]
  from t have a: \<open>fst (parse (example_agent False) example_text)
      = Inr (''Search'', ''{"q": "cats"}\<newline>'')\<close>
    by (rule conjunct1)
  from t have b: "fst (parse (example_agent False) text_brackets) = Inr (''[Search]'', ''x'')"
    by (rule conjunct2[THEN conjunct2, THEN conjunct1])
  from t have \<open>\<forall>g g1 g2. re_search g = Some (g1, g2) \<longrightarrow>
          (\<exists>pre ob cb nl ws.
              g = pre @ ''Action: '' @ ob @ g1 @ cb @ nl @ ''Action Input:'' @ ws @ g2
              \<and> (ob = [] \<or> ob = ''['') \<and> (cb = [] \<or> cb = '']'')
              \<and> set nl \<subseteq> {CHR 0x0A} \<and> (\<forall>x \<in> set ws. isspace x)
              \<and> (g2 \<noteq> [] \<longrightarrow> \<not> isspace (hd g2)))\<close>
    by (rule conjunct2[THEN conjunct2, THEN conjunct2, THEN conjunct2, THEN conjunct2,
          THEN conjunct1])
  from this[THEN spec, THEN spec, THEN spec, THEN mp, OF re_search_example]
  have c: \<open>\<exists>pre ob cb nl ws.
         example_text = pre @ ''Action: '' @ ob @ ''Search'' @ cb @ nl @ ''Action Input:'' @ ws
           @ ''{"q": "cats"}\<newline>''
         \<and> (ob = [] \<or> ob = ''['') \<and> (cb = [] \<or> cb = '']'') \<and> set nl \<subseteq> {CHR 0x0A}\<close>
    by (elim exE conjE) (rule exI, rule exI, rule exI, rule exI, rule exI, intro conjI)
  from t have \<open>\<forall>g tool inp. fst (parse (example_agent False) g) = Inr (tool, inp) \<longrightarrow>
          (tool \<noteq> [] \<longrightarrow> \<not> isspace (hd tool) \<and> \<not> isspace (last tool))
        \<and> (inp \<noteq> [] \<longrightarrow> \<not> is_dquote (hd inp) \<and> \<not> is_dquote (last inp))\<close>
    by (rule conjunct2[THEN conjunct2, THEN conjunct2, THEN conjunct2, THEN conjunct2,
          THEN conjunct2, THEN conjunct2, THEN conjunct2])
  from this[THEN spec, THEN spec, THEN spec, THEN mp, OF a]
  have d: \<open>\<not> isspace (hd ''Search'') \<and> \<not> isspace (last ''Search'')
      \<and> \<not> is_dquote (hd ''{"q": "cats"}\<newline>'') \<and> \<not> is_dquote (last ''{"q": "cats"}\<newline>'')\<close>
    by simp
  from a b c d re_search_example show ?thesis by (intro conjI) (simp_all only: simp_thms)
qed

theorem parse_example_counterexample:
  \<open>fst (parse (example_agent False) example_text) \<noteq> Inr (''Search'', ''{"q": "cats"}'')\<close>
  by (simp add: parse_matched[OF re_search_example] strip_example)


section \<open>The constructor\<close>

lemma ReturnFinalAnswerTool_simps [simp]:
  "is_final (ReturnFinalAnswerTool E)"
  "name (ReturnFinalAnswerTool E) = ''Return Final Answer Tool''"
  by (simp_all add: ReturnFinalAnswerTool_def)

text \<open>
  C8. A tool list without a tool of the final-answer type gets the default
  \<open>ReturnFinalAnswerTool()\<close> appended at its end, and then holds exactly one tool of that
  type; a list that holds one already is left as it is.
\<close>

theorem Agent_final_answer_tool:
  "(\<not> list_ex is_final ts \<longrightarrow>
      tools (Agent E l ts p m sp v d) = ts @ [ReturnFinalAnswerTool E]
      \<and> length (filter is_final (tools (Agent E l ts p m sp v d))) = 1
      \<and> is_final (last (tools (Agent E l ts p m sp v d))))
   \<and> (list_ex is_final ts \<longrightarrow> tools (Agent E l ts p m sp v d) = ts)"
proof (intro conjI impI)
  assume n: "\<not> list_ex is_final ts"
  then have "filter is_final ts = []" by (auto simp: list_ex_iff filter_empty_conv)
  with n show "tools (Agent E l ts p m sp v d) = ts @ [ReturnFinalAnswerTool E]"
    "length (filter is_final (tools (Agent E l ts p m sp v d))) = 1"
    "is_final (last (tools (Agent E l ts p m sp v d)))"
    by (simp_all add: Agent_def ReturnFinalAnswerTool_def)
next
  assume "list_ex is_final ts"
  then show "tools (Agent E l ts p m sp v d) = ts" by (simp add: Agent_def)
qed

theorem Agent_final_answer_tool_witness:
  "\<not> list_ex is_final [search_tool]
   \<and> tools (example_agent False) = [search_tool, ReturnFinalAnswerTool example_env]
   \<and> length (filter is_final (tools (example_agent False))) = 1
   \<and> list_ex is_final [search_tool, failing_tool ''Done'' True]
   \<and> tools (Agent example_env (fixed_llm example_text) [search_tool, failing_tool ''Done'' True]
        short_template 1 default_stop_pattern False False)
      = [search_tool, failing_tool ''Done'' True]"
proof -
  have a: "\<not> list_ex is_final [search_tool]" by (simp add: search_tool_def)
  have b: "list_ex is_final [search_tool, failing_tool ''Done'' True]"
    by (simp add: failing_tool_def)
  from a b
    Agent_final_answer_tool[of "[search_tool]" example_env "fixed_llm example_text"
      short_template 1 default_stop_pattern False False]
    Agent_final_answer_tool[of "[search_tool, failing_tool ''Done'' True]" example_env
      "fixed_llm example_text" short_template 1 default_stop_pattern False False]
  show ?thesis unfolding example_agent_def by simp
qed


section \<open>The loop: properties\<close>

lemma tool_by_names_None:
  "tool_by_names self tool = None \<longleftrightarrow> tool \<notin> set (map name (tools self))"
  by (simp add: tool_by_names_def map_of_eq_None_iff image_image)

lemma decide_matched:
  assumes "llm self w [(''user'', cp)] (stop_pattern self) = (g, w1)"
    and "fst (parse self g) = Inr (tool, raw)"
  shows "decide_next_action self w cp = (Inr (g, tool, raw), self, w1)"
  using assms parse_Inr_self[OF assms(2)] by (simp add: decide_next_action_def)

lemma decide_unmatched:
  assumes "llm self w [(''user'', cp)] (stop_pattern self) = (g, w1)"
    and "re_search g = None"
  shows "\<exists>e self1. decide_next_action self w cp = (Inl e, self1, w1)"
  using assms by (simp add: decide_next_action_def parse_unmatched)

lemma iteration_reach:
  assumes "py_format E prompt [(''previous_responses'', strip (join [CHR 0x0A] prev))] = Inr cp"
    and "llm self w [(''user'', cp)] (stop_pattern self) = (g, w1)"
    and "fst (parse self g) = Inr (tool, raw)"
  shows "iteration E prompt (self, task, w, prev) =
     (case tool_by_names self tool of
        None \<Rightarrow> (Raised (ValueError (''Unknown tool: '' @ tool)), (self, task, w1, prev))
      | Some t \<Rightarrow>
          (case decode_input E self raw of
             (Inl e, self2) \<Rightarrow> (Raised e, (self2, task, w1, prev))
           | (Inr v, self2) \<Rightarrow>
               (case dispatch self2 t w1 v of
                  (Inl e, self3, w2) \<Rightarrow> (Raised e, (self3, task, w2, prev))
                | (Inr r, self3, w2) \<Rightarrow> observe g tool r (self3, task, w2, prev))))"
  using assms(1) decide_matched[OF assms(2) assms(3)] by (simp add: iteration_def)

lemma run_loop_Raised:
  "num_loops < max_loops (fst st) \<Longrightarrow> iteration E prompt st = (Raised e, st')
    \<Longrightarrow> run_loop E prompt num_loops st = (Inl e, st')"
  by (subst run_loop.simps) simp

lemma run_loop_Returned:
  "num_loops < max_loops (fst st) \<Longrightarrow> iteration E prompt st = (Returned r, st')
    \<Longrightarrow> run_loop E prompt num_loops st = (Inr (Some r), st')"
  by (subst run_loop.simps) simp

lemma run_loop_Next:
  "num_loops < max_loops (fst st) \<Longrightarrow> iteration E prompt st = (Next, st')
    \<Longrightarrow> run_loop E prompt num_loops st = run_loop E prompt (num_loops + 1) st'"
  by (subst run_loop.simps) simp

lemma run_loop_done:
  "\<not> num_loops < max_loops (fst st) \<Longrightarrow> run_loop E prompt num_loops st = (Inr None, st)"
  by (subst run_loop.simps) simp

lemma run_unfold:
  "py_format E (prompt_template self)
      [(''today'', today E), (''tool_description'', tool_description self),
       (''tool_names'', tool_names self), (''goal'', goal task),
       (''previous_responses'', ''{previous_responses}'')] = Inr prompt
   \<Longrightarrow> run E self task w = run_loop E prompt 0 (self, task, w, ai_responses self)"
  by (simp add: run_def)

text \<open>
  C7. A parsed tool name that is not the name of a tool in the catalogue ends \<open>run\<close> with
  \<open>ValueError("Unknown tool: ...")\<close>, whatever the debug flag: nothing is recorded or
  appended, no tool is called, and the loop does not go on.
\<close>

theorem unknown_tool_is_fatal:
  assumes "num_loops < max_loops self"
    and "py_format E prompt [(''previous_responses'', strip (join [CHR 0x0A] prev))] = Inr cp"
    and "llm self w [(''user'', cp)] (stop_pattern self) = (generated, w1)"
    and "fst (parse self generated) = Inr (tool, tool_input)"
    and "tool \<notin> set (map name (tools self))"
  shows "run_loop E prompt num_loops (self, task, w, prev) =
           (Inl (ValueError (''Unknown tool: '' @ tool)), (self, task, w1, prev))"
proof -
  from assms(5) have "tool_by_names self tool = None" by (simp add: tool_by_names_None)
  with iteration_reach[OF assms(2) assms(3) assms(4), of task]
  have "iteration E prompt (self, task, w, prev) =
     (Raised (ValueError (''Unknown tool: '' @ tool)), (self, task, w1, prev))"
    by simp
  with assms(1) show ?thesis by (simp add: run_loop_Raised)
qed

lemma decode_ok:
  "loads E (remove_control raw) = Inr v \<Longrightarrow> decode_input E self raw = (Inr v, self)"
  by (simp add: decode_input_def)

lemma decode_failed:
  "loads E (remove_control raw) = Inl (JSONDecodeError e) \<Longrightarrow>
   decode_input E self raw =
     (if debug self then Inl (ValueError (''Error parsing JSON: '' @ e))
      else Inr (PStr (remove_control raw)),
      self\<lparr>errors_encountered := errors_encountered self @ [JSONDecodeError e]\<rparr>)"
  by (simp add: decode_input_def Let_def)

lemma decode_uncaught:
  "loads E (remove_control raw) = Inl x \<Longrightarrow> \<forall>e. x \<noteq> JSONDecodeError e \<Longrightarrow>
   decode_input E self raw = (Inl x, self)"
  by (cases x) (simp_all add: decode_input_def)

lemma decode_shape:
  "\<exists>es. snd (decode_input E self raw) = self\<lparr>errors_encountered := es\<rparr>"
proof (cases "loads E (remove_control raw)")
  case (Inr v)
  then have "snd (decode_input E self raw) = self\<lparr>errors_encountered := errors_encountered self\<rparr>"
    by (simp add: decode_ok)
  then show ?thesis by (rule exI)
next
  case (Inl x)
  show ?thesis
  proof (cases "\<exists>e. x = JSONDecodeError e")
    case True
    then obtain e where "x = JSONDecodeError e" by (rule exE)
    with Inl have "snd (decode_input E self raw) =
        self\<lparr>errors_encountered := errors_encountered self @ [JSONDecodeError e]\<rparr>"
      by (simp add: decode_failed)
    then show ?thesis by (rule exI)
  next
    case False
    with Inl have "snd (decode_input E self raw) =
        self\<lparr>errors_encountered := errors_encountered self\<rparr>"
      by (simp add: decode_uncaught)
    then show ?thesis by (rule exI)
  qed
qed

lemma remove_control_bell:
  "\<forall>c \<in> set j. \<not> is_control c \<Longrightarrow> remove_control (j @ [CHR 0x07]) = j"
  by (simp add: remove_control_def is_control_def)

lemma dispatch_raised:
  "call_tool t w v = (Inl (cls, m), w') \<Longrightarrow>
   dispatch self t w v =
     (if debug self then Inl (ValueError (''Error from tool: '' @ m))
      else Inr (''Error from tool: '' @ m),
      self\<lparr>errors_encountered := errors_encountered self @ [ToolException cls m]\<rparr>, w')"
  by (simp add: dispatch_def Let_def)

lemma dispatch_returned:
  "call_tool t w v = (Inr r, w') \<Longrightarrow> dispatch self t w v = (Inr r, self, w')"
  by (simp add: dispatch_def)

lemma dispatch_shape:
  "\<exists>es. fst (snd (dispatch self t w v)) = self\<lparr>errors_encountered := es\<rparr>"
proof -
  obtain res w' where c: "call_tool t w v = (res, w')" by (cases "call_tool t w v")
  show ?thesis
  proof (cases res)
    case (Inl x)
    obtain cls m where "x = (cls, m)" by (cases x)
    with Inl c have "fst (snd (dispatch self t w v)) =
        self\<lparr>errors_encountered := errors_encountered self @ [ToolException cls m]\<rparr>"
      by (simp add: dispatch_raised)
    then show ?thesis by (rule exI)
  next
    case (Inr r)
    with c have "fst (snd (dispatch self t w v)) =
        self\<lparr>errors_encountered := errors_encountered self\<rparr>"
      by (simp add: dispatch_returned)
    then show ?thesis by (rule exI)
  qed
qed

lemma decode_input_debug:
  "decode_input E self raw = (r, self2) \<Longrightarrow> debug self2 = debug self"
  using decode_shape[of E self raw] by auto

text \<open>
  The ways out of one iteration: it raises and leaves the task as it was, or it has a
  prompt, a text of the model with a match of the pattern, a tool of the catalogue under
  the parsed name and a tool result, and ends in \<open>observe\<close>. The agent changes in its
  error log and its history only.
\<close>

lemma iteration_cases:
  assumes "iteration E prompt (self, task, w, prev) = (out, st')"
  shows "(\<exists>e. out = Raised e \<and> fst (snd st') = task)
       \<or> (\<exists>cp g w1 g1 g2 t r es w2.
            llm self w [(''user'', cp)] (stop_pattern self) = (g, w1)
            \<and> re_search g = Some (g1, g2)
            \<and> tool_by_names self (strip g1) = Some t
            \<and> (out, st') = observe g (strip g1) r (self\<lparr>errors_encountered := es\<rparr>, task, w2, prev))"
proof (cases "py_format E prompt [(''previous_responses'', strip (join [CHR 0x0A] prev))]")
  case (Inl e)
  with assms have "out = Raised e" "st' = (self, task, w, prev)"
    by (simp_all add: iteration_def)
  then show ?thesis by simp
next
  case (Inr cp)
  obtain g w1 where g: "llm self w [(''user'', cp)] (stop_pattern self) = (g, w1)"
    by (cases "llm self w [(''user'', cp)] (stop_pattern self)")
  show ?thesis
  proof (cases "re_search g")
    case None
    from decide_unmatched[OF g None] obtain e self1
      where "decide_next_action self w cp = (Inl e, self1, w1)" by blast
    with assms Inr have "out = Raised e" "st' = (self1, task, w1, prev)"
      by (simp_all add: iteration_def)
    then show ?thesis by simp
  next
    case (Some m)
    obtain g1 g2 where m: "m = (g1, g2)" by (cases m)
    let ?raw = "strip_chars is_dquote (strip_chars is_blank g2)"
    from Some m have p: "fst (parse self g) = Inr (strip g1, ?raw)" by (simp add: parse_matched)
    note it = iteration_reach[OF Inr g p, of task]
    show ?thesis
    proof (cases "tool_by_names self (strip g1)")
      case None
      with it assms show ?thesis by auto
    next
      case t: (Some t)
      obtain d self2 where d: "decode_input E self ?raw = (d, self2)"
        by (cases "decode_input E self ?raw")
      from decode_shape[of E self ?raw] d obtain es
        where s2: "self2 = self\<lparr>errors_encountered := es\<rparr>" by auto
      show ?thesis
      proof (cases d)
        case (Inl e)
        with it assms t d show ?thesis by auto
      next
        case v: (Inr v)
        obtain c self3 w2 where c: "dispatch self2 t w1 v = (c, self3, w2)"
          by (cases "dispatch self2 t w1 v")
        from dispatch_shape[of self2 t w1 v] c s2 obtain es'
          where s3: "self3 = self\<lparr>errors_encountered := es'\<rparr>" by auto
        show ?thesis
        proof (cases c)
          case (Inl e)
          with it assms t d v c show ?thesis by auto
        next
          case (Inr r)
          with it assms t d v c s3
          have o: "(out, st') = observe g (strip g1) r (self\<lparr>errors_encountered := es'\<rparr>, task, w2, prev)"
            by simp
          show ?thesis
            apply (rule disjI2)
            apply (rule_tac x = cp in exI, rule_tac x = g in exI, rule_tac x = w1 in exI)
            apply (rule_tac x = g1 in exI, rule_tac x = g2 in exI, rule_tac x = t in exI)
            apply (rule_tac x = r in exI, rule_tac x = es' in exI, rule_tac x = w2 in exI)
            using g Some m t o apply simp
            done
        qed
      qed
    qed
  qed
qed

lemma iteration_task:
  assumes "iteration E prompt (self, task, w, prev) = (out, st')"
  shows "fst (snd st') = (case out of
            Returned r \<Rightarrow> task\<lparr>raw_output := Some r, completed := True\<rparr>
          | Next \<Rightarrow> task
          | Raised e \<Rightarrow> task)"
  using iteration_cases[OF assms]
  by (auto simp: observe_def Let_def split: if_splits)

lemma iteration_config:
  assumes "iteration E prompt (self, task, w, prev) = (Next, st')"
  shows "\<exists>es rs. fst st' = self\<lparr>errors_encountered := es, ai_responses := rs\<rparr>"
proof -
  from iteration_cases[OF assms] obtain g tool r es w2
    where o: "(Next, st') = observe g tool r (self\<lparr>errors_encountered := es\<rparr>, task, w2, prev)"
    by auto
  let ?g = "g @ [CHR 0x0A] @ OBSERVATION_TOKEN @ '' '' @ r @ [CHR 0x0A] @ ''Next Thought:''"
  from o have "fst st' = self\<lparr>errors_encountered := es,
      ai_responses := ai_responses self @ [strip ?g]\<rparr>"
    by (auto simp: observe_def Let_def split: if_splits)
  then show ?thesis by blast
qed

lemma iteration_Returned:
  assumes "iteration E prompt (self, task, w, prev) = (Returned r, st')"
  shows "\<exists>w' msgs g1 g2. re_search (fst (llm self w' msgs (stop_pattern self))) = Some (g1, g2)
           \<and> strip g1 = ''Return Final Answer Tool''"
proof -
  from iteration_cases[OF assms] obtain cp g w1 g1 g2 t r' es w2
    where g: "llm self w [(''user'', cp)] (stop_pattern self) = (g, w1)"
      and m: "re_search g = Some (g1, g2)"
      and o: "(Returned r, st') = observe g (strip g1) r' (self\<lparr>errors_encountered := es\<rparr>, task, w2, prev)"
    by auto
  from o have "strip g1 = ''Return Final Answer Tool''"
    by (auto simp: observe_def Let_def split: if_splits)
  with g m show ?thesis
    apply (rule_tac x = w in exI, rule_tac x = "[(''user'', cp)]" in exI)
    apply (rule_tac x = g1 in exI, rule_tac x = g2 in exI)
    apply simp
    done
qed

lemma run_loop_task:
  "fst (snd (snd (run_loop E prompt n st))) =
     (case fst (run_loop E prompt n st) of
        Inr (Some r) \<Rightarrow> (fst (snd st))\<lparr>raw_output := Some r, completed := True\<rparr>
      | Inr None \<Rightarrow> fst (snd st)
      | Inl e \<Rightarrow> fst (snd st))"
proof (induction E prompt n st rule: run_loop.induct)
  case (1 E prompt num_loops st)
  obtain self task w prev where st: "st = (self, task, w, prev)" by (cases st)
  show ?case
  proof (cases "num_loops < max_loops (fst st)")
    case False
    then show ?thesis by (simp add: run_loop_done)
  next
    case True
    obtain out st' where it: "iteration E prompt st = (out, st')"
      by (cases "iteration E prompt st")
    note tk = iteration_task[OF it[unfolded st]]
    show ?thesis
    proof (cases out)
      case Next
      with tk have eq: "fst (snd st') = fst (snd st)" by (simp add: st)
      from 1[OF True it[symmetric] Next, unfolded eq] run_loop_Next[OF True it[unfolded Next]]
      show ?thesis by (simp only:)
    next
      case (Returned r)
      with tk run_loop_Returned[OF True it[unfolded Returned]] show ?thesis by (simp add: st)
    next
      case (Raised e)
      with tk run_loop_Raised[OF True it[unfolded Raised]] show ?thesis by (simp add: st)
    qed
  qed
qed

lemma run_loop_never:
  assumes "\<forall>w' msgs g1 g2.
      re_search (fst (llm (fst st) w' msgs (stop_pattern (fst st)))) = Some (g1, g2)
      \<longrightarrow> strip g1 \<noteq> ''Return Final Answer Tool''"
  shows "fst (run_loop E prompt n st) \<noteq> Inr (Some r)"
  using assms
proof (induction E prompt n st rule: run_loop.induct)
  case (1 E prompt num_loops st)
  obtain self task w prev where st: "st = (self, task, w, prev)" by (cases st)
  show ?case
  proof (cases "num_loops < max_loops (fst st)")
    case False
    then show ?thesis by (simp add: run_loop_done)
  next
    case True
    obtain out st' where it: "iteration E prompt st = (out, st')"
      by (cases "iteration E prompt st")
    show ?thesis
    proof (cases out)
      case Next
      from iteration_config[OF it[unfolded st Next]] obtain es rs
        where c: "fst st' = self\<lparr>errors_encountered := es, ai_responses := rs\<rparr>" by blast
      have "\<forall>w' msgs g1 g2.
          re_search (fst (llm (fst st') w' msgs (stop_pattern (fst st')))) = Some (g1, g2)
          \<longrightarrow> strip g1 \<noteq> ''Return Final Answer Tool''"
        using 1(2) by (simp add: c st)
      from 1(1)[OF True it[symmetric] Next this] run_loop_Next[OF True it[unfolded Next]]
      show ?thesis by simp
    next
      case (Returned r')
      from iteration_Returned[OF it[unfolded st Returned]] 1(2) show ?thesis
        by (auto simp: st)
    next
      case (Raised e)
      with run_loop_Raised[OF True it[unfolded Raised]] show ?thesis by simp
    qed
  qed
qed

text \<open>
  C5. In an iteration that has parsed a known tool name, the raw input loses exactly the
  characters 0x00-0x1F and 0x7F and is then decoded; so a text that \<open>json.loads\<close> accepts,
  followed by 0x07, decodes to the same value. On success the decoded value is what the
  tool is called with. When \<open>json.loads\<close> raises \<open>JSONDecodeError\<close>, the error is recorded;
  in debug mode \<open>run\<close> raises \<open>ValueError("Error parsing JSON: ...")\<close>; otherwise the cleaned,
  undecoded text is the tool input and the call of the tool is attempted with it. When
  \<open>json.loads\<close> raises an exception of another class, nothing is recorded and \<open>run\<close> raises
  that exception, whatever the debug flag.
\<close>

theorem tool_input_decoding:
  assumes "num_loops < max_loops self"
    and "py_format E prompt [(''previous_responses'', strip (join [CHR 0x0A] prev))] = Inr cp"
    and "llm self w [(''user'', cp)] (stop_pattern self) = (generated, w1)"
    and "fst (parse self generated) = Inr (tool, raw)"
    and "tool_by_names self tool = Some t"
  shows
    "remove_control raw = filter (\<lambda>c. (of_char c :: nat) \<notin> {0..31} \<union> {127}) raw
     \<and> (\<forall>j. raw = j @ [CHR 0x07] \<longrightarrow> decode_input E self raw = decode_input E self j)
     \<and> (\<forall>j v. raw = j @ [CHR 0x07] \<longrightarrow> (\<forall>c \<in> set j. \<not> is_control c) \<longrightarrow> loads E j = Inr v
            \<longrightarrow> decode_input E self raw = (Inr v, self))
     \<and> (\<forall>v. loads E (remove_control raw) = Inr v \<longrightarrow>
            iteration E prompt (self, task, w, prev) =
              (case dispatch self t w1 v of
                 (Inl e, self3, w2) \<Rightarrow> (Raised e, (self3, task, w2, prev))
               | (Inr r, self3, w2) \<Rightarrow> observe generated tool r (self3, task, w2, prev)))
     \<and> (\<forall>e. loads E (remove_control raw) = Inl (JSONDecodeError e) \<longrightarrow> debug self \<longrightarrow>
            run_loop E prompt num_loops (self, task, w, prev) =
              (Inl (ValueError (''Error parsing JSON: '' @ e)),
               (self\<lparr>errors_encountered := errors_encountered self @ [JSONDecodeError e]\<rparr>,
                task, w1, prev)))
     \<and> (\<forall>e. loads E (remove_control raw) = Inl (JSONDecodeError e) \<longrightarrow> \<not> debug self \<longrightarrow>
            iteration E prompt (self, task, w, prev) =
              (case dispatch
                      (self\<lparr>errors_encountered := errors_encountered self @ [JSONDecodeError e]\<rparr>)
                      t w1 (PStr (remove_control raw)) of
                 (Inl e', self3, w2) \<Rightarrow> (Raised e', (self3, task, w2, prev))
               | (Inr r, self3, w2) \<Rightarrow> observe generated tool r (self3, task, w2, prev)))
     \<and> (\<forall>x. loads E (remove_control raw) = Inl x \<longrightarrow> (\<forall>e. x \<noteq> JSONDecodeError e) \<longrightarrow>
            run_loop E prompt num_loops (self, task, w, prev) = (Inl x, (self, task, w1, prev)))"
proof (intro conjI allI impI)
  show "remove_control raw = filter (\<lambda>c. (of_char c :: nat) \<notin> {0..31} \<union> {127}) raw"
    unfolding remove_control_def is_control_def by (rule filter_cong) auto
next
  fix j
  assume "raw = j @ [CHR 0x07]"
  then show "decode_input E self raw = decode_input E self j"
    by (simp add: decode_input_def remove_control_def is_control_def)
next
  fix j v
  assume "raw = j @ [CHR 0x07]" "\<forall>c \<in> set j. \<not> is_control c" "loads E j = Inr v"
  then show "decode_input E self raw = (Inr v, self)"
    by (simp add: decode_ok remove_control_bell)
next
  note it = iteration_reach[OF assms(2) assms(3) assms(4), of task]
  have ml: "num_loops < max_loops (fst (self, task, w, prev))" using assms(1) by simp
  {
    fix v assume "loads E (remove_control raw) = Inr v"
    then show "iteration E prompt (self, task, w, prev) =
              (case dispatch self t w1 v of
                 (Inl e, self3, w2) \<Rightarrow> (Raised e, (self3, task, w2, prev))
               | (Inr r, self3, w2) \<Rightarrow> observe generated tool r (self3, task, w2, prev))"
      using it assms(5) by (simp add: decode_ok)
  next
    fix e assume "loads E (remove_control raw) = Inl (JSONDecodeError e)" "debug self"
    then have "iteration E prompt (self, task, w, prev) =
        (Raised (ValueError (''Error parsing JSON: '' @ e)),
         (self\<lparr>errors_encountered := errors_encountered self @ [JSONDecodeError e]\<rparr>,
          task, w1, prev))"
      using it assms(5) by (simp add: decode_failed)
    from run_loop_Raised[OF ml this]
    show "run_loop E prompt num_loops (self, task, w, prev) =
              (Inl (ValueError (''Error parsing JSON: '' @ e)),
               (self\<lparr>errors_encountered := errors_encountered self @ [JSONDecodeError e]\<rparr>,
                task, w1, prev))" .
  next
    fix e assume "loads E (remove_control raw) = Inl (JSONDecodeError e)" "\<not> debug self"
    then show "iteration E prompt (self, task, w, prev) =
              (case dispatch
                      (self\<lparr>errors_encountered := errors_encountered self @ [JSONDecodeError e]\<rparr>)
                      t w1 (PStr (remove_control raw)) of
                 (Inl e', self3, w2) \<Rightarrow> (Raised e', (self3, task, w2, prev))
               | (Inr r, self3, w2) \<Rightarrow> observe generated tool r (self3, task, w2, prev))"
      using it assms(5) by (simp add: decode_failed)
  next
    fix x assume "loads E (remove_control raw) = Inl x" "\<forall>e. x \<noteq> JSONDecodeError e"
    then have "iteration E prompt (self, task, w, prev) = (Raised x, (self, task, w1, prev))"
      using it assms(5) by (simp add: decode_uncaught)
    from run_loop_Raised[OF ml this]
    show "run_loop E prompt num_loops (self, task, w, prev) = (Inl x, (self, task, w1, prev))" .
  }
qed

text \<open>
  C6. When the call of the tool raises an exception with message \<open>m\<close>, the exception is
  recorded. In debug mode \<open>run\<close> raises \<open>ValueError("Error from tool: m")\<close>. Otherwise the
  observation is \<open>Error from tool: m\<close> and the turn is appended to the history; then the
  loop goes on with the next iteration, unless the tool name is the literal
  \<open>Return Final Answer Tool\<close>: in that case \<open>run\<close> returns the error text as the result and
  marks the task completed, and the model gets no turn to try again.
\<close>

theorem tool_exception_handling:
  assumes "num_loops < max_loops self"
    and "py_format E prompt [(''previous_responses'', strip (join [CHR 0x0A] prev))] = Inr cp"
    and "llm self w [(''user'', cp)] (stop_pattern self) = (generated, w1)"
    and "fst (parse self generated) = Inr (tool, raw)"
    and "tool_by_names self tool = Some t"
    and "decode_input E self raw = (Inr v, self2)"
    and "call_tool t w1 v = (Inl (cls, m), w2)"
  shows
    "(debug self \<longrightarrow>
        run_loop E prompt num_loops (self, task, w, prev) =
          (Inl (ValueError (''Error from tool: '' @ m)),
           (self2\<lparr>errors_encountered := errors_encountered self2 @ [ToolException cls m]\<rparr>,
            task, w2, prev)))
     \<and> (\<not> debug self \<longrightarrow> tool \<noteq> ''Return Final Answer Tool'' \<longrightarrow>
        run_loop E prompt num_loops (self, task, w, prev) =
          run_loop E prompt (num_loops + 1)
            (self2\<lparr>errors_encountered := errors_encountered self2 @ [ToolException cls m],
                   ai_responses := ai_responses self2 @
                     [strip (generated @ ''\<newline>Observation: Error from tool: '' @ m
                        @ ''\<newline>Next Thought:'')]\<rparr>,
             task, w2,
             prev @ [generated @ ''\<newline>Observation: Error from tool: '' @ m
                       @ ''\<newline>Next Thought:'']))
     \<and> (\<not> debug self \<longrightarrow> tool = ''Return Final Answer Tool'' \<longrightarrow>
        run_loop E prompt num_loops (self, task, w, prev) =
          (Inr (Some (''Error from tool: '' @ m)),
           (self2\<lparr>errors_encountered := errors_encountered self2 @ [ToolException cls m],
                  ai_responses := ai_responses self2 @
                    [strip (generated @ ''\<newline>Observation: Error from tool: '' @ m
                       @ ''\<newline>Next Thought:'')]\<rparr>,
            task\<lparr>raw_output := Some (''Error from tool: '' @ m), completed := True\<rparr>, w2,
            prev @ [generated @ ''\<newline>Observation: Error from tool: '' @ m
                      @ ''\<newline>Next Thought:''])))"
proof -
  note it = iteration_reach[OF assms(2) assms(3) assms(4), of task]
  note d = decode_input_debug[OF assms(6)]
  note dr = dispatch_raised[OF assms(7), of self2]
  have ml: "num_loops < max_loops (fst (self, task, w, prev))" using assms(1) by simp
  show ?thesis
  proof (intro conjI impI)
    assume "debug self"
    with it assms(5) assms(6) dr d
    have "iteration E prompt (self, task, w, prev) =
        (Raised (ValueError (''Error from tool: '' @ m)),
         (self2\<lparr>errors_encountered := errors_encountered self2 @ [ToolException cls m]\<rparr>,
          task, w2, prev))"
      by simp
    from run_loop_Raised[OF ml this] show "run_loop E prompt num_loops (self, task, w, prev) =
          (Inl (ValueError (''Error from tool: '' @ m)),
           (self2\<lparr>errors_encountered := errors_encountered self2 @ [ToolException cls m]\<rparr>,
            task, w2, prev))" .
  next
    assume nd: "\<not> debug self" and nf: "tool \<noteq> ''Return Final Answer Tool''"
    with it assms(5) assms(6) dr d
    have "iteration E prompt (self, task, w, prev) =
        (Next,
         (self2\<lparr>errors_encountered := errors_encountered self2 @ [ToolException cls m],
                   ai_responses := ai_responses self2 @
                     [strip (generated @ ''\<newline>Observation: Error from tool: '' @ m
                        @ ''\<newline>Next Thought:'')]\<rparr>,
             task, w2,
             prev @ [generated @ ''\<newline>Observation: Error from tool: '' @ m
                       @ ''\<newline>Next Thought:'']))"
      by (simp add: observe_def OBSERVATION_TOKEN_def Let_def)
    from run_loop_Next[OF ml this]
    show "run_loop E prompt num_loops (self, task, w, prev) =
          run_loop E prompt (num_loops + 1)
            (self2\<lparr>errors_encountered := errors_encountered self2 @ [ToolException cls m],
                   ai_responses := ai_responses self2 @
                     [strip (generated @ ''\<newline>Observation: Error from tool: '' @ m
                        @ ''\<newline>Next Thought:'')]\<rparr>,
             task, w2,
             prev @ [generated @ ''\<newline>Observation: Error from tool: '' @ m
                       @ ''\<newline>Next Thought:''])" .
  next
    assume nd: "\<not> debug self" and f: "tool = ''Return Final Answer Tool''"
    with it assms(5) assms(6) dr d
    have "iteration E prompt (self, task, w, prev) =
        (Returned (''Error from tool: '' @ m),
           (self2\<lparr>errors_encountered := errors_encountered self2 @ [ToolException cls m],
                  ai_responses := ai_responses self2 @
                    [strip (generated @ ''\<newline>Observation: Error from tool: '' @ m
                       @ ''\<newline>Next Thought:'')]\<rparr>,
            task\<lparr>raw_output := Some (''Error from tool: '' @ m), completed := True\<rparr>, w2,
            prev @ [generated @ ''\<newline>Observation: Error from tool: '' @ m
                      @ ''\<newline>Next Thought:'']))"
      by (simp add: observe_def OBSERVATION_TOKEN_def Let_def)
    from run_loop_Returned[OF ml this]
    show "run_loop E prompt num_loops (self, task, w, prev) =
          (Inr (Some (''Error from tool: '' @ m)),
           (self2\<lparr>errors_encountered := errors_encountered self2 @ [ToolException cls m],
                  ai_responses := ai_responses self2 @
                    [strip (generated @ ''\<newline>Observation: Error from tool: '' @ m
                       @ ''\<newline>Next Thought:'')]\<rparr>,
            task\<lparr>raw_output := Some (''Error from tool: '' @ m), completed := True\<rparr>, w2,
            prev @ [generated @ ''\<newline>Observation: Error from tool: '' @ m
                      @ ''\<newline>Next Thought:'']))" .
  qed
qed

text \<open>
  C2. In an iteration whose tool name is the literal \<open>Return Final Answer Tool\<close> and that
  obtains a tool result (what the tool returned or, in non-debug mode, the error text put
  in its place), \<open>run\<close> writes the result to \<open>task.raw_output\<close>, sets \<open>task.completed\<close> and
  returns the result at once. With the default final-answer tool and an input that
  decodes to a mapping with the single text \<open>42\<close>, the result is \<open>42\<close>. An input that
  decodes to the number 42, as the answer written after \<open>Action Input:\<close> without an
  enclosing object does, is not a mapping: the result is then the text of the \<open>TypeError\<close>
  that the call raises, not the answer.
\<close>

theorem final_answer_returns:
  assumes "num_loops < max_loops self"
    and "py_format E prompt [(''previous_responses'', strip (join [CHR 0x0A] prev))] = Inr cp"
    and "llm self w [(''user'', cp)] (stop_pattern self) = (generated, w1)"
    and "fst (parse self generated) = Inr (tool, raw)"
    and "tool_by_names self tool = Some t"
    and "decode_input E self raw = (Inr v, self2)"
    and "dispatch self2 t w1 v = (Inr r, self3, w2)"
    and "tool = ''Return Final Answer Tool''"
  shows
    "run_loop E prompt num_loops (self, task, w, prev) =
       (Inr (Some r),
        (self3\<lparr>ai_responses := ai_responses self3 @
           [strip (generated @ ''\<newline>Observation: '' @ r @ ''\<newline>Next Thought:'')]\<rparr>,
         task\<lparr>raw_output := Some r, completed := True\<rparr>, w2,
         prev @ [generated @ ''\<newline>Observation: '' @ r @ ''\<newline>Next Thought:'']))
     \<and> (\<forall>k E'. v = PDict [(k, PStr ''42'')] \<longrightarrow> t = ReturnFinalAnswerTool E' \<longrightarrow> r = ''42'')
     \<and> (\<forall>i. v = PInt i \<longrightarrow>
           r = ''Error from tool: '' @ run_qualname t
                 @ ''() argument after ** must be a mapping, not int'')"
proof (intro conjI allI impI)
  have ml: "num_loops < max_loops (fst (self, task, w, prev))" using assms(1) by simp
  have "iteration E prompt (self, task, w, prev) =
       (Returned r,
        (self3\<lparr>ai_responses := ai_responses self3 @
           [strip (generated @ ''\<newline>Observation: '' @ r @ ''\<newline>Next Thought:'')]\<rparr>,
         task\<lparr>raw_output := Some r, completed := True\<rparr>, w2,
         prev @ [generated @ ''\<newline>Observation: '' @ r @ ''\<newline>Next Thought:'']))"
    using iteration_reach[OF assms(2) assms(3) assms(4), of task] assms(5) assms(6) assms(7)
      assms(8)
    by (simp add: observe_def OBSERVATION_TOKEN_def Let_def)
  from run_loop_Returned[OF ml this]
  show "run_loop E prompt num_loops (self, task, w, prev) =
       (Inr (Some r),
        (self3\<lparr>ai_responses := ai_responses self3 @
           [strip (generated @ ''\<newline>Observation: '' @ r @ ''\<newline>Next Thought:'')]\<rparr>,
         task\<lparr>raw_output := Some r, completed := True\<rparr>, w2,
         prev @ [generated @ ''\<newline>Observation: '' @ r @ ''\<newline>Next Thought:'']))" .
next
  fix k E' assume "v = PDict [(k, PStr ''42'')]" "t = ReturnFinalAnswerTool E'"
  with assms(7) show "r = ''42''"
    by (simp add: dispatch_def call_tool_def ReturnFinalAnswerTool_def)
next
  fix i assume "v = PInt i"
  with assms(7) show "r = ''Error from tool: '' @ run_qualname t
                 @ ''() argument after ** must be a mapping, not int''"
    by (auto simp: dispatch_def call_tool_def Let_def split: if_splits)
qed

lemma run_task:
  "fst (snd (snd (run E self task w))) =
     (case fst (run E self task w) of
        Inr (Some r) \<Rightarrow> task\<lparr>raw_output := Some r, completed := True\<rparr>
      | Inr None \<Rightarrow> task
      | Inl e \<Rightarrow> task)"
proof (cases "py_format E (prompt_template self)
      [(''today'', today E), (''tool_description'', tool_description self),
       (''tool_names'', tool_names self), (''goal'', goal task),
       (''previous_responses'', ''{previous_responses}'')]")
  case (Inl e)
  then show ?thesis by (simp add: run_def)
next
  case (Inr prompt)
  from run_loop_task[of E prompt 0 "(self, task, w, ai_responses self)",
      unfolded fst_conv snd_conv]
  show ?thesis by (simp only: run_unfold[OF Inr])
qed

lemma run_never:
  assumes "\<forall>w' msgs g1 g2.
      re_search (fst (llm self w' msgs (stop_pattern self))) = Some (g1, g2)
      \<longrightarrow> strip g1 \<noteq> ''Return Final Answer Tool''"
  shows "fst (run E self task w) \<noteq> Inr (Some r)"
proof (cases "py_format E (prompt_template self)
      [(''today'', today E), (''tool_description'', tool_description self),
       (''tool_names'', tool_names self), (''goal'', goal task),
       (''previous_responses'', ''{previous_responses}'')]")
  case (Inl e)
  then show ?thesis by (simp add: run_def)
next
  case (Inr prompt)
  from run_loop_never[of "(self, task, w, ai_responses self)" E prompt 0 r] assms
  show ?thesis by (simp add: run_unfold[OF Inr])
qed

text \<open>
  C9. \<open>run\<close> is the loop started on the prompt of the first \<open>format\<close>. An iteration that
  has parsed a tool name, found a tool of the catalogue under it and obtained a tool
  result (what the tool returned or, in non-debug mode, the error text put in its place)
  compares the name with the literal \<open>Return Final Answer Tool\<close>: when the two are equal,
  \<open>run\<close> completes the task with the result and returns it; otherwise the loop goes on with
  the task as it was. The type of the tool (\<open>is_final\<close>) plays no part. When decoding the
  input raises or, in debug mode, the tool raises, \<open>run\<close> raises with the task as it was,
  whatever the name. Altogether \<open>run\<close> completes the task exactly when it returns a
  value, and it does neither when the model never names the literal.
\<close>

theorem final_path_by_name:
  "(\<forall>prompt.
      py_format E (prompt_template self)
        [(''today'', today E), (''tool_description'', tool_description self),
         (''tool_names'', tool_names self), (''goal'', goal task),
         (''previous_responses'', ''{previous_responses}'')] = Inr prompt
      \<longrightarrow> run E self task w = run_loop E prompt 0 (self, task, w, ai_responses self))
   \<and> (\<forall>prompt num_loops prev cp generated w1 tool raw t.
        num_loops < max_loops self
        \<longrightarrow> py_format E prompt [(''previous_responses'', strip (join [CHR 0x0A] prev))] = Inr cp
        \<longrightarrow> llm self w [(''user'', cp)] (stop_pattern self) = (generated, w1)
        \<longrightarrow> fst (parse self generated) = Inr (tool, raw)
        \<longrightarrow> tool_by_names self tool = Some t
        \<longrightarrow> (\<forall>v self2 r self3 w2.
               decode_input E self raw = (Inr v, self2)
               \<longrightarrow> dispatch self2 t w1 v = (Inr r, self3, w2)
               \<longrightarrow> (tool = ''Return Final Answer Tool'' \<longrightarrow>
                     run_loop E prompt num_loops (self, task, w, prev) =
                       (Inr (Some r),
                        (self3\<lparr>ai_responses := ai_responses self3 @
                           [strip (generated @ ''\<newline>Observation: '' @ r @ ''\<newline>Next Thought:'')]\<rparr>,
                         task\<lparr>raw_output := Some r, completed := True\<rparr>, w2,
                         prev @ [generated @ ''\<newline>Observation: '' @ r @ ''\<newline>Next Thought:''])))
                 \<and> (tool \<noteq> ''Return Final Answer Tool'' \<longrightarrow>
                     run_loop E prompt num_loops (self, task, w, prev) =
                       run_loop E prompt (num_loops + 1)
                         (self3\<lparr>ai_responses := ai_responses self3 @
                            [strip (generated @ ''\<newline>Observation: '' @ r @ ''\<newline>Next Thought:'')]\<rparr>,
                          task, w2,
                          prev @ [generated @ ''\<newline>Observation: '' @ r @ ''\<newline>Next Thought:''])))
          \<and> (\<forall>e self2.
               decode_input E self raw = (Inl e, self2)
               \<longrightarrow> run_loop E prompt num_loops (self, task, w, prev) = (Inl e, (self2, task, w1, prev)))
          \<and> (\<forall>v self2 e self3 w2.
               decode_input E self raw = (Inr v, self2)
               \<longrightarrow> dispatch self2 t w1 v = (Inl e, self3, w2)
               \<longrightarrow> debug self
                   \<and> run_loop E prompt num_loops (self, task, w, prev) =
                       (Inl e, (self3, task, w2, prev))))
   \<and> fst (snd (snd (run E self task w))) =
       (case fst (run E self task w) of
          Inr (Some r) \<Rightarrow> task\<lparr>raw_output := Some r, completed := True\<rparr>
        | Inr None \<Rightarrow> task
        | Inl e \<Rightarrow> task)
   \<and> ((\<forall>w' msgs g1 g2.
          re_search (fst (llm self w' msgs (stop_pattern self))) = Some (g1, g2)
          \<longrightarrow> strip g1 \<noteq> ''Return Final Answer Tool'')
       \<longrightarrow> (\<forall>r. fst (run E self task w) \<noteq> Inr (Some r))
           \<and> fst (snd (snd (run E self task w))) = task)"
proof (intro conjI allI impI)
  fix prompt
  assume "py_format E (prompt_template self)
        [(''today'', today E), (''tool_description'', tool_description self),
         (''tool_names'', tool_names self), (''goal'', goal task),
         (''previous_responses'', ''{previous_responses}'')] = Inr prompt"
  then show "run E self task w = run_loop E prompt 0 (self, task, w, ai_responses self)"
    by (rule run_unfold)
next
  show "fst (snd (snd (run E self task w))) =
       (case fst (run E self task w) of
          Inr (Some r) \<Rightarrow> task\<lparr>raw_output := Some r, completed := True\<rparr>
        | Inr None \<Rightarrow> task
        | Inl e \<Rightarrow> task)"
    by (rule run_task)
next
  fix r
  assume "\<forall>w' msgs g1 g2.
          re_search (fst (llm self w' msgs (stop_pattern self))) = Some (g1, g2)
          \<longrightarrow> strip g1 \<noteq> ''Return Final Answer Tool''"
  then show "fst (run E self task w) \<noteq> Inr (Some r)" by (rule run_never)
next
  assume a: "\<forall>w' msgs g1 g2.
          re_search (fst (llm self w' msgs (stop_pattern self))) = Some (g1, g2)
          \<longrightarrow> strip g1 \<noteq> ''Return Final Answer Tool''"
  have n: "fst (run E self task w) \<noteq> Inr (Some r)" for r using a by (rule run_never)
  from run_task[of E self task w] n show "fst (snd (snd (run E self task w))) = task"
    by (cases "fst (run E self task w)") (auto split: option.splits)
next
  fix prompt num_loops prev cp generated w1 tool raw t
  assume n: "num_loops < max_loops self"
    and cp: "py_format E prompt [(''previous_responses'', strip (join [CHR 0x0A] prev))] = Inr cp"
    and g: "llm self w [(''user'', cp)] (stop_pattern self) = (generated, w1)"
    and p: "fst (parse self generated) = Inr (tool, raw)"
    and t: "tool_by_names self tool = Some t"
  note it = iteration_reach[OF cp g p, of task]
  have ml: "num_loops < max_loops (fst (self, task, w, prev))" using n by simp
  {
    fix v self2 r self3 w2
    assume d: "decode_input E self raw = (Inr v, self2)"
      and c: "dispatch self2 t w1 v = (Inr r, self3, w2)"
    {
      assume f: "tool = ''Return Final Answer Tool''"
      with it t d c have "iteration E prompt (self, task, w, prev) =
          (Returned r,
           (self3\<lparr>ai_responses := ai_responses self3 @
              [strip (generated @ ''\<newline>Observation: '' @ r @ ''\<newline>Next Thought:'')]\<rparr>,
            task\<lparr>raw_output := Some r, completed := True\<rparr>, w2,
            prev @ [generated @ ''\<newline>Observation: '' @ r @ ''\<newline>Next Thought:'']))"
        by (simp add: observe_def OBSERVATION_TOKEN_def Let_def)
      from run_loop_Returned[OF ml this]
      show "run_loop E prompt num_loops (self, task, w, prev) =
          (Inr (Some r),
           (self3\<lparr>ai_responses := ai_responses self3 @
              [strip (generated @ ''\<newline>Observation: '' @ r @ ''\<newline>Next Thought:'')]\<rparr>,
            task\<lparr>raw_output := Some r, completed := True\<rparr>, w2,
            prev @ [generated @ ''\<newline>Observation: '' @ r @ ''\<newline>Next Thought:'']))" .
    next
      assume f: "tool \<noteq> ''Return Final Answer Tool''"
      with it t d c have "iteration E prompt (self, task, w, prev) =
          (Next,
           (self3\<lparr>ai_responses := ai_responses self3 @
              [strip (generated @ ''\<newline>Observation: '' @ r @ ''\<newline>Next Thought:'')]\<rparr>,
            task, w2,
            prev @ [generated @ ''\<newline>Observation: '' @ r @ ''\<newline>Next Thought:'']))"
        by (simp add: observe_def OBSERVATION_TOKEN_def Let_def)
      from run_loop_Next[OF ml this]
      show "run_loop E prompt num_loops (self, task, w, prev) =
          run_loop E prompt (num_loops + 1)
            (self3\<lparr>ai_responses := ai_responses self3 @
               [strip (generated @ ''\<newline>Observation: '' @ r @ ''\<newline>Next Thought:'')]\<rparr>,
             task, w2,
             prev @ [generated @ ''\<newline>Observation: '' @ r @ ''\<newline>Next Thought:''])" .
    }
  next
    fix e self2
    assume d: "decode_input E self raw = (Inl e, self2)"
    with it t have "iteration E prompt (self, task, w, prev) = (Raised e, (self2, task, w1, prev))"
      by simp
    from run_loop_Raised[OF ml this]
    show "run_loop E prompt num_loops (self, task, w, prev) = (Inl e, (self2, task, w1, prev))" .
  next
    fix v self2 e self3 w2
    assume d: "decode_input E self raw = (Inr v, self2)"
      and c: "dispatch self2 t w1 v = (Inl e, self3, w2)"
    with it t have "iteration E prompt (self, task, w, prev) = (Raised e, (self3, task, w2, prev))"
      by simp
    from run_loop_Raised[OF ml this]
    show "run_loop E prompt num_loops (self, task, w, prev) = (Inl e, (self3, task, w2, prev))" .
    from c have "debug self2"
      by (auto simp: dispatch_def Let_def split: prod.splits sum.splits if_splits)
    with decode_input_debug[OF d] show "debug self" by simp
  }
qed

lemma dispatch_quiet:
  "\<not> debug self \<Longrightarrow>
    \<exists>r es w'. dispatch self t w v = (Inr r, self\<lparr>errors_encountered := es\<rparr>, w')"
proof -
  assume nd: "\<not> debug self"
  obtain res w' where c: "call_tool t w v = (res, w')" by (cases "call_tool t w v")
  show ?thesis
  proof (cases res)
    case (Inl x)
    obtain cls m where "x = (cls, m)" by (cases x)
    with Inl c nd have "dispatch self t w v =
        (Inr (''Error from tool: '' @ m),
         self\<lparr>errors_encountered := errors_encountered self @ [ToolException cls m]\<rparr>, w')"
      by (simp add: dispatch_raised)
    then show ?thesis by blast
  next
    case (Inr r)
    with c have "dispatch self t w v = (Inr r, self\<lparr>errors_encountered := errors_encountered self\<rparr>, w')"
      by (simp add: dispatch_returned)
    then show ?thesis by blast
  qed
qed

lemma turn_quiet:
  assumes "case loads E (remove_control raw) of
             Inr v \<Rightarrow> debug self \<longrightarrow> (\<exists>r w2. call_tool t w1 v = (Inr r, w2))
           | Inl x \<Rightarrow> \<not> debug self \<and> (\<exists>e. x = JSONDecodeError e)"
  shows "\<exists>v es r es' w2.
           decode_input E self raw = (Inr v, self\<lparr>errors_encountered := es\<rparr>)
           \<and> dispatch (self\<lparr>errors_encountered := es\<rparr>) t w1 v
               = (Inr r, self\<lparr>errors_encountered := es'\<rparr>, w2)"
proof (cases "loads E (remove_control raw)")
  case (Inl x)
  with assms obtain e where x: "x = JSONDecodeError e" and nd: "\<not> debug self" by auto
  let ?s = "self\<lparr>errors_encountered := errors_encountered self @ [JSONDecodeError e]\<rparr>"
  from Inl x nd have d: "decode_input E self raw = (Inr (PStr (remove_control raw)), ?s)"
    by (simp add: decode_failed)
  have "\<not> debug ?s" using nd by simp
  from dispatch_quiet[OF this, of t w1 "PStr (remove_control raw)"] obtain r es' w2
    where "dispatch ?s t w1 (PStr (remove_control raw)) = (Inr r, self\<lparr>errors_encountered := es'\<rparr>, w2)"
    by auto
  with d show ?thesis by blast
next
  case (Inr v)
  let ?s = "self\<lparr>errors_encountered := errors_encountered self\<rparr>"
  from Inr have d: "decode_input E self raw = (Inr v, ?s)" by (simp add: decode_ok)
  show ?thesis
  proof (cases "debug self")
    case True
    with Inr assms obtain r w2 where "call_tool t w1 v = (Inr r, w2)" by auto
    then have "dispatch ?s t w1 v = (Inr r, ?s, w2)" by (simp add: dispatch_returned)
    with d show ?thesis by blast
  next
    case False
    then have "\<not> debug ?s" by simp
    from dispatch_quiet[OF this, of t w1 v] obtain r es' w2
      where "dispatch ?s t w1 v = (Inr r, self\<lparr>errors_encountered := es'\<rparr>, w2)"
      by auto
    with d show ?thesis by blast
  qed
qed

lemma iteration_quiet:
  assumes render: "\<forall>x. \<exists>cp. py_format E prompt [(''previous_responses'', x)] = Inr cp"
    and model: "\<forall>w' msgs. \<exists>g1 g2 t.
        re_search (fst (llm self w' msgs (stop_pattern self))) = Some (g1, g2)
        \<and> tool_by_names self (strip g1) = Some t
        \<and> strip g1 \<noteq> ''Return Final Answer Tool''
        \<and> (case loads E (remove_control (strip_chars is_dquote (strip_chars is_blank g2))) of
             Inr v \<Rightarrow> debug self \<longrightarrow>
               (\<exists>r w2. call_tool t (snd (llm self w' msgs (stop_pattern self))) v = (Inr r, w2))
           | Inl x \<Rightarrow> \<not> debug self \<and> (\<exists>e. x = JSONDecodeError e))"
  shows "\<exists>es x w1 g'. iteration E prompt (self, task, w, prev) =
      (Next, (self\<lparr>errors_encountered := es, ai_responses := ai_responses self @ [x]\<rparr>,
              task, w1, prev @ [g']))"
proof -
  from render obtain cp
    where cp: "py_format E prompt [(''previous_responses'', strip (join [CHR 0x0A] prev))] = Inr cp"
    by blast
  obtain g w1 where g: "llm self w [(''user'', cp)] (stop_pattern self) = (g, w1)"
    by (cases "llm self w [(''user'', cp)] (stop_pattern self)")
  from model[rule_format, of w "[(''user'', cp)]"]
  have "\<exists>g1 g2 t. re_search g = Some (g1, g2) \<and> tool_by_names self (strip g1) = Some t
      \<and> strip g1 \<noteq> ''Return Final Answer Tool''
      \<and> (case loads E (remove_control (strip_chars is_dquote (strip_chars is_blank g2))) of
             Inr v \<Rightarrow> debug self \<longrightarrow> (\<exists>r w2. call_tool t w1 v = (Inr r, w2))
           | Inl x \<Rightarrow> \<not> debug self \<and> (\<exists>e. x = JSONDecodeError e))"
    by (simp only: g fst_conv snd_conv)
  then obtain g1 g2 t
    where m: "re_search g = Some (g1, g2)" "tool_by_names self (strip g1) = Some t"
      "strip g1 \<noteq> ''Return Final Answer Tool''"
      and q: "case loads E (remove_control (strip_chars is_dquote (strip_chars is_blank g2))) of
             Inr v \<Rightarrow> debug self \<longrightarrow> (\<exists>r w2. call_tool t w1 v = (Inr r, w2))
           | Inl x \<Rightarrow> \<not> debug self \<and> (\<exists>e. x = JSONDecodeError e)"
    by blast
  let ?raw = "strip_chars is_dquote (strip_chars is_blank g2)"
  have p: "fst (parse self g) = Inr (strip g1, ?raw)" using m(1) by (simp add: parse_matched)
  from turn_quiet[OF q] obtain v es r es' w2
    where d: "decode_input E self ?raw = (Inr v, self\<lparr>errors_encountered := es\<rparr>)"
      and c: "dispatch (self\<lparr>errors_encountered := es\<rparr>) t w1 v =
       (Inr r, self\<lparr>errors_encountered := es'\<rparr>, w2)"
    by blast
  have "iteration E prompt (self, task, w, prev) =
      observe g (strip g1) r (self\<lparr>errors_encountered := es'\<rparr>, task, w2, prev)"
    using iteration_reach[OF cp g p, of task] m(2) d c by simp
  with m(3) have "iteration E prompt (self, task, w, prev) =
      (Next, (self\<lparr>errors_encountered := es',
                   ai_responses := ai_responses self @
                     [strip (g @ [CHR 0x0A] @ OBSERVATION_TOKEN @ '' '' @ r @ [CHR 0x0A]
                        @ ''Next Thought:'')]\<rparr>,
              task, w2,
              prev @ [g @ [CHR 0x0A] @ OBSERVATION_TOKEN @ '' '' @ r @ [CHR 0x0A]
                        @ ''Next Thought:'']))"
    by (simp add: observe_def Let_def)
  then show ?thesis by blast
qed

lemma run_loop_exhausts:
  assumes "k = nat (max_loops self - n)"
    and render: "\<forall>x. \<exists>cp. py_format E prompt [(''previous_responses'', x)] = Inr cp"
    and model: "\<forall>w' msgs. \<exists>g1 g2 t.
        re_search (fst (llm self w' msgs (stop_pattern self))) = Some (g1, g2)
        \<and> tool_by_names self (strip g1) = Some t
        \<and> strip g1 \<noteq> ''Return Final Answer Tool''
        \<and> (case loads E (remove_control (strip_chars is_dquote (strip_chars is_blank g2))) of
             Inr v \<Rightarrow> debug self \<longrightarrow>
               (\<exists>r w2. call_tool t (snd (llm self w' msgs (stop_pattern self))) v = (Inr r, w2))
           | Inl x \<Rightarrow> \<not> debug self \<and> (\<exists>e. x = JSONDecodeError e))"
  shows "\<exists>self' w' prev'. run_loop E prompt n (self, task, w, prev) =
            (Inr None, (self', task, w', prev'))
         \<and> length (ai_responses self') = length (ai_responses self) + k
         \<and> length prev' = length prev + k"
  using assms
proof (induction k arbitrary: n self w prev)
  case 0
  then have "\<not> n < max_loops (fst (self, task, w, prev))" by simp
  from run_loop_done[OF this] show ?case by simp
next
  case (Suc k)
  from Suc.prems(1) have lt: "n < max_loops (fst (self, task, w, prev))" by simp
  from iteration_quiet[OF Suc.prems(2) Suc.prems(3), of task w prev]
  obtain es x w1 g' where it: "iteration E prompt (self, task, w, prev) =
      (Next, (self\<lparr>errors_encountered := es, ai_responses := ai_responses self @ [x]\<rparr>,
              task, w1, prev @ [g']))"
    by blast
  let ?self = "self\<lparr>errors_encountered := es, ai_responses := ai_responses self @ [x]\<rparr>"
  have k: "k = nat (max_loops ?self - (n + 1))" using Suc.prems(1) by simp
  have model: "\<forall>w' msgs. \<exists>g1 g2 t.
        re_search (fst (llm ?self w' msgs (stop_pattern ?self))) = Some (g1, g2)
        \<and> tool_by_names ?self (strip g1) = Some t
        \<and> strip g1 \<noteq> ''Return Final Answer Tool''
        \<and> (case loads E (remove_control (strip_chars is_dquote (strip_chars is_blank g2))) of
             Inr v \<Rightarrow> debug ?self \<longrightarrow>
               (\<exists>r w2. call_tool t (snd (llm ?self w' msgs (stop_pattern ?self))) v = (Inr r, w2))
           | Inl x \<Rightarrow> \<not> debug ?self \<and> (\<exists>e. x = JSONDecodeError e))"
  proof -
    have c: "llm ?self = llm self" "stop_pattern ?self = stop_pattern self"
      "debug ?self = debug self" "tool_by_names ?self = tool_by_names self"
      by (simp_all add: tool_by_names_def fun_eq_iff)
    from Suc.prems(3) show ?thesis unfolding c .
  qed
  from Suc.IH[OF k Suc.prems(2) model, of w1 "prev @ [g']"]
  obtain self' w' prev' where r: "run_loop E prompt (n + 1) (?self, task, w1, prev @ [g']) =
            (Inr None, (self', task, w', prev'))"
         "length (ai_responses self') = length (ai_responses ?self) + k"
         "length prev' = length (prev @ [g']) + k"
    by blast
  from run_loop_Next[OF lt it] r show ?case by simp
qed

text \<open>
  C3. With a prompt that renders, a model that always produces a parseable action naming
  a known tool other than \<open>Return Final Answer Tool\<close>, with an input that \<open>json.loads\<close>
  decodes or, in non-debug mode only, rejects with \<open>JSONDecodeError\<close>, and, in debug mode,
  with a tool that returns on the decoded input, makes \<open>run\<close> go through exactly
  \<open>max_loops\<close> iterations (none when \<open>max_loops\<close> is not positive), one turn appended to the
  history in each, and return no value, without raising and with the task untouched.
\<close>

theorem loop_budget_exhausted:
  assumes "py_format E (prompt_template self)
      [(''today'', today E), (''tool_description'', tool_description self),
       (''tool_names'', tool_names self), (''goal'', goal task),
       (''previous_responses'', ''{previous_responses}'')] = Inr prompt"
    and "\<forall>x. \<exists>cp. py_format E prompt [(''previous_responses'', x)] = Inr cp"
    and "\<forall>w' msgs. \<exists>g1 g2 t.
        re_search (fst (llm self w' msgs (stop_pattern self))) = Some (g1, g2)
        \<and> tool_by_names self (strip g1) = Some t
        \<and> strip g1 \<noteq> ''Return Final Answer Tool''
        \<and> (case loads E (remove_control (strip_chars is_dquote (strip_chars is_blank g2))) of
             Inr v \<Rightarrow> debug self \<longrightarrow>
               (\<exists>r w2. call_tool t (snd (llm self w' msgs (stop_pattern self))) v = (Inr r, w2))
           | Inl x \<Rightarrow> \<not> debug self \<and> (\<exists>e. x = JSONDecodeError e))"
  shows "\<exists>self' w' prev'.
           run E self task w = (Inr None, (self', task, w', prev'))
           \<and> length (ai_responses self') = length (ai_responses self) + nat (max_loops self)
           \<and> length prev' = length (ai_responses self) + nat (max_loops self)"
  using run_loop_exhausts[OF _ assms(2) assms(3), of "nat (max_loops self)" 0 task w
      "ai_responses self"]
  by (simp add: run_unfold[OF assms(1)])

lemma run_render_error:
  assumes "py_format E (prompt_template self)
      [(''today'', today E), (''tool_description'', tool_description self),
       (''tool_names'', tool_names self), (''goal'', goal task),
       (''previous_responses'', ''{previous_responses}'')] = Inr prompt"
    and "py_format E prompt
      [(''previous_responses'', strip (join [CHR 0x0A] (ai_responses self)))] = Inl e"
    and "0 < max_loops self"
  shows "run E self task w = (Inl e, (self, task, w, ai_responses self))"
proof -
  have "iteration E prompt (self, task, w, ai_responses self) =
      (Raised e, (self, task, w, ai_responses self))"
    using assms(2) by (simp add: iteration_def)
  moreover have "0 < max_loops (fst (self, task, w, ai_responses self))" using assms(3) by simp
  ultimately show ?thesis
    using run_loop_Raised[of 0 "(self, task, w, ai_responses self)" E prompt e]
    by (simp add: run_unfold[OF assms(1)])
qed


section \<open>Examples\<close>

lemma test_agent_simps [simp]:
  "llm (test_agent text ts n dbg) = fixed_llm text"
  "stop_pattern (test_agent text ts n dbg) = default_stop_pattern"
  "prompt_template (test_agent text ts n dbg) = short_template"
  "max_loops (test_agent text ts n dbg) = n"
  "debug (test_agent text ts n dbg) = dbg"
  "ai_responses (test_agent text ts n dbg) = []"
  "errors_encountered (test_agent text ts n dbg) = []"
  "tools (test_agent text ts n dbg) =
     (if list_ex is_final ts then ts else ts @ [ReturnFinalAnswerTool example_env])"
  by (simp_all add: test_agent_def Agent_def)

lemma short_template_first:
  "py_format E short_template
     [(''today'', a), (''tool_description'', b), (''tool_names'', c), (''goal'', g),
      (''previous_responses'', ''{previous_responses}'')]
   = Inr (g @ ''\<newline>{previous_responses}'')"
  by (simp add: short_template_def py_format.simps parse_field_def render_field_def
      all_digits_def)

lemma short_template_second:
  "py_format E (''Find cats\<newline>{previous_responses}'') [(''previous_responses'', x)]
   = Inr (''Find cats\<newline>'' @ x)"
  by (simp add: py_format.simps parse_field_def render_field_def all_digits_def)

lemma parse_text_unknown: "fst (parse self text_unknown) = Inr (''Fly'', ''{}'')"
  by (rule parse_eval) (unfold text_unknown_def, code_simp)

lemma parse_text_bell: \<open>fst (parse self text_bell) = Inr (''Search'', ''{"q": "cats"}'' @ [CHR 0x07])\<close>
  by (rule parse_eval) (unfold text_bell_def, code_simp)

lemma parse_text_plain: "fst (parse self text_plain) = Inr (''Search'', ''cats'')"
  by (rule parse_eval) (unfold text_plain_def, code_simp)

lemma run_test_agent:
  "run example_env (test_agent text ts n dbg) example_task w =
   run_loop example_env ''Find cats\<newline>{previous_responses}'' 0
     (test_agent text ts n dbg, example_task, w, [])"
  using run_unfold[of example_env "test_agent text ts n dbg" example_task
      "''Find cats\<newline>{previous_responses}''" w]
  by (simp add: short_template_first example_task_def)

lemma first_prompt:
  "py_format example_env ''Find cats\<newline>{previous_responses}''
     [(''previous_responses'', strip (join [CHR 0x0A] []))] = Inr ''Find cats\<newline>''"
proof -
  have "strip (join [CHR 0x0A] []) = []" by code_simp
  then show ?thesis by (simp only: short_template_second append_Nil2)
qed

theorem unknown_tool_is_fatal_witness:
  "''Fly'' \<notin> set (map name (tools (test_agent text_unknown [search_tool] 1 True)))
   \<and> run example_env (test_agent text_unknown [search_tool] 1 True) example_task 0 =
       (Inl (ValueError ''Unknown tool: Fly''),
        (test_agent text_unknown [search_tool] 1 True, example_task, 1, []))
   \<and> run example_env (test_agent text_unknown [search_tool] 1 False) example_task 0 =
       (Inl (ValueError ''Unknown tool: Fly''),
        (test_agent text_unknown [search_tool] 1 False, example_task, 1, []))"
proof -
  have cat: "''Fly'' \<notin> set (map name (tools (test_agent text_unknown [search_tool] 1 dbg)))"
    for dbg by (simp add: search_tool_def)
  have gen: "llm (test_agent text_unknown [search_tool] 1 dbg) 0 [(''user'', ''Find cats\<newline>'')]
      (stop_pattern (test_agent text_unknown [search_tool] 1 dbg)) = (text_unknown, 1)"
    for dbg by (simp add: fixed_llm_def)
  have n: "0 < max_loops (test_agent text_unknown [search_tool] 1 dbg)" for dbg by simp
  note t = unknown_tool_is_fatal[OF n first_prompt gen parse_text_unknown cat, of _ example_task]
  from t[of True] t[of False] cat[of True] show ?thesis
    by (simp add: run_test_agent)
qed

lemma lookup_search:
  "tool_by_names (test_agent text [search_tool] n dbg) ''Search'' = Some search_tool"
  by (simp add: tool_by_names_def search_tool_def)

lemma fixed_llm_call:
  "llm (test_agent text ts n dbg) w msgs (stop_pattern (test_agent text ts n dbg)) = (text, w + 1)"
  by (simp add: fixed_llm_def)

lemma example_loads_values:
  \<open>example_loads ''{"q": "cats"}'' = Inr (PDict [(''q'', PStr ''cats'')])\<close>
  \<open>example_loads ''{"answer": "42"}'' = Inr (PDict [(''answer'', PStr ''42'')])\<close>
  \<open>example_loads ''{}'' = Inr (PDict [])\<close>
  \<open>example_loads ''42'' = Inr (PInt 42)\<close>
  \<open>example_loads ''cats'' = Inl (JSONDecodeError ''Expecting value: line 1 column 1 (char 0)'')\<close>
  by (simp_all add: example_loads_def big_number_def)

lemma big_number_ends:
  "big_number \<noteq> []" "hd big_number = CHR ''1''" "last big_number = CHR ''1''"
  by (simp_all add: big_number_def)

lemma example_loads_big:
  "example_loads big_number =
     Inl (ValueError (''Exceeds the limit (4300 digits) for integer string conversion: ''
       @ ''value has 4301 digits; use sys.set_int_max_str_digits() to increase the limit''))"
proof -
  have "big_number \<noteq> s" if "hd s \<noteq> CHR ''1''" for s
    using that big_number_ends(2) by auto
  then show ?thesis by (simp add: example_loads_def)
qed

lemma re_search_text_big: "re_search text_big = Some (''Search'', big_number)"
proof -
  have i: "m_input (CHR '' '' # big_number) = big_number"
    by (simp add: m_input_def big_number_def isspace_def)
  show ?thesis
    unfolding text_big_def
    by (simp add: m_action_def m_literal_def i)
qed

lemma parse_text_big: "fst (parse self text_big) = Inr (''Search'', big_number)"
proof -
  have 1: "strip_chars is_blank big_number = big_number"
    by (rule strip_chars_id) (simp_all add: big_number_ends is_blank_def)
  have 2: "strip_chars is_dquote big_number = big_number"
    by (rule strip_chars_id) (simp_all add: big_number_ends is_dquote_def)
  show ?thesis by (simp add: parse_matched[OF re_search_text_big] strip_example 1 2)
qed

lemma remove_control_big: "remove_control big_number = big_number"
  by (simp add: remove_control_def big_number_def is_control_def)

lemma loads_example_env [simp]: "loads example_env = example_loads"
  by (simp add: example_env_def)

theorem tool_input_decoding_witness:
  \<open>decode_input example_env (test_agent text_bell [search_tool] 1 False)
       (''{"q": "cats"}'' @ [CHR 0x07])
     = (Inr (PDict [(''q'', PStr ''cats'')]), test_agent text_bell [search_tool] 1 False)
   \<and> run example_env (test_agent text_plain [search_tool] 1 True) example_task 0 =
       (Inl (ValueError ''Error parsing JSON: Expecting value: line 1 column 1 (char 0)''),
        ((test_agent text_plain [search_tool] 1 True)
           \<lparr>errors_encountered := [JSONDecodeError ''Expecting value: line 1 column 1 (char 0)'']\<rparr>,
         example_task, 1, []))
   \<and> fst (run example_env (test_agent text_plain [search_tool] 1 False) example_task 0) = Inr None
   \<and> errors_encountered
        (fst (snd (run example_env (test_agent text_plain [search_tool] 1 False) example_task 0)))
       = [JSONDecodeError ''Expecting value: line 1 column 1 (char 0)'',
          ToolException ''TypeError''
            ''__main__.SearchTool.run() argument after ** must be a mapping, not str'']
   \<and> run example_env (test_agent text_big [search_tool] 1 False) example_task 0 =
       (Inl (ValueError (''Exceeds the limit (4300 digits) for integer string conversion: ''
          @ ''value has 4301 digits; use sys.set_int_max_str_digits() to increase the limit'')),
        (test_agent text_big [search_tool] 1 False, example_task, 1, []))\<close>
proof -
  let ?B = "test_agent text_bell [search_tool] 1 False"
  let ?P = "\<lambda>dbg. test_agent text_plain [search_tool] 1 dbg"
  have n: "0 < max_loops (test_agent g [search_tool] 1 dbg)" for g dbg by simp
  note b = tool_input_decoding[OF n[of text_bell False] first_prompt fixed_llm_call
      parse_text_bell lookup_search, where task = example_task and w = 0]
  note pT = tool_input_decoding[OF n[of text_plain True] first_prompt fixed_llm_call
      parse_text_plain lookup_search, where task = example_task and w = 0]
  note pF = tool_input_decoding[OF n[of text_plain False] first_prompt fixed_llm_call
      parse_text_plain lookup_search, where task = example_task and w = 0]
  note bg = tool_input_decoding[OF n[of text_big False] first_prompt fixed_llm_call
      parse_text_big lookup_search, where task = example_task and w = 0]
  have clean: \<open>\<forall>c \<in> set ''{"q": "cats"}''. \<not> is_control c\<close>
    by (simp add: is_control_def)
  have lv: \<open>loads example_env ''{"q": "cats"}'' = Inr (PDict [(''q'', PStr ''cats'')])\<close>
    by (simp add: example_loads_values)
  from b have \<open>\<forall>j v. ''{"q": "cats"}'' @ [CHR 0x07] = j @ [CHR 0x07] \<longrightarrow>
      (\<forall>c \<in> set j. \<not> is_control c) \<longrightarrow> loads example_env j = Inr v \<longrightarrow>
      decode_input example_env ?B (''{"q": "cats"}'' @ [CHR 0x07]) = (Inr v, ?B)\<close>
    by (rule conjunct2[THEN conjunct2, THEN conjunct1])
  from this[THEN spec, THEN spec, THEN mp, THEN mp, THEN mp, OF refl clean lv]
  have 1: \<open>decode_input example_env ?B (''{"q": "cats"}'' @ [CHR 0x07])
     = (Inr (PDict [(''q'', PStr ''cats'')]), ?B)\<close> .
  have rc: "remove_control ''cats'' = ''cats''" by code_simp
  have fail: "loads example_env (remove_control ''cats'')
      = Inl (JSONDecodeError ''Expecting value: line 1 column 1 (char 0)'')"
    by (simp add: rc example_loads_values)
  from pT have "\<forall>e. loads example_env (remove_control ''cats'') = Inl (JSONDecodeError e)
      \<longrightarrow> debug (?P True) \<longrightarrow>
      run_loop example_env ''Find cats\<newline>{previous_responses}'' 0 (?P True, example_task, 0, []) =
        (Inl (ValueError (''Error parsing JSON: '' @ e)),
         ((?P True)\<lparr>errors_encountered := errors_encountered (?P True) @ [JSONDecodeError e]\<rparr>,
          example_task, 0 + 1, []))"
    by (rule conjunct2[THEN conjunct2, THEN conjunct2, THEN conjunct2, THEN conjunct1])
  from this[THEN spec, THEN mp, OF fail]
  have 2: "run example_env (?P True) example_task 0 =
       (Inl (ValueError ''Error parsing JSON: Expecting value: line 1 column 1 (char 0)''),
        ((?P True)
           \<lparr>errors_encountered := [JSONDecodeError ''Expecting value: line 1 column 1 (char 0)'']\<rparr>,
         example_task, 1, []))"
    by (simp add: run_test_agent)
  from pF have "\<forall>e. loads example_env (remove_control ''cats'') = Inl (JSONDecodeError e)
      \<longrightarrow> \<not> debug (?P False) \<longrightarrow>
      iteration example_env ''Find cats\<newline>{previous_responses}'' (?P False, example_task, 0, []) =
        (case dispatch
                ((?P False)\<lparr>errors_encountered :=
                    errors_encountered (?P False) @ [JSONDecodeError e]\<rparr>)
                search_tool (0 + 1) (PStr (remove_control ''cats'')) of
           (Inl e', self3, w2) \<Rightarrow> (Raised e', (self3, example_task, w2, []))
         | (Inr r, self3, w2) \<Rightarrow> observe text_plain ''Search'' r (self3, example_task, w2, []))"
    by (rule conjunct2[THEN conjunct2, THEN conjunct2, THEN conjunct2, THEN conjunct2,
          THEN conjunct1])
  from this[THEN spec, THEN mp, OF fail]
  have "iteration example_env ''Find cats\<newline>{previous_responses}'' (?P False, example_task, 0, [])
     = (case dispatch ((?P False)\<lparr>errors_encountered :=
                 [JSONDecodeError ''Expecting value: line 1 column 1 (char 0)'']\<rparr>)
               search_tool 1 (PStr ''cats'') of
          (Inl e', self3, w2) \<Rightarrow> (Raised e', (self3, example_task, w2, []))
        | (Inr r, self3, w2) \<Rightarrow> observe text_plain ''Search'' r (self3, example_task, w2, []))"
    by (simp add: rc)
  then obtain x g' where it:
    "iteration example_env ''Find cats\<newline>{previous_responses}'' (?P False, example_task, 0, [])
     = (Next, ((?P False)\<lparr>errors_encountered :=
                 [JSONDecodeError ''Expecting value: line 1 column 1 (char 0)'',
                  ToolException ''TypeError''
                    ''__main__.SearchTool.run() argument after ** must be a mapping, not str''],
                 ai_responses := [x]\<rparr>, example_task, 1, [g']))"
    by (simp add: dispatch_def call_tool_def search_tool_def observe_def Let_def)
  have lt: "0 < max_loops (fst (?P False, example_task, 0::nat, []::string list))" by simp
  have 3: "run example_env (?P False) example_task 0 =
      (Inr None, ((?P False)\<lparr>errors_encountered :=
                 [JSONDecodeError ''Expecting value: line 1 column 1 (char 0)'',
                  ToolException ''TypeError''
                    ''__main__.SearchTool.run() argument after ** must be a mapping, not str''],
                 ai_responses := [x]\<rparr>, example_task, 1, [g']))"
    using run_loop_Next[OF lt it] by (simp add: run_test_agent run_loop_done)
  have big: "loads example_env (remove_control big_number) = Inl (ValueError (''Exceeds the limit (4300 digits) for integer string conversion: ''
          @ ''value has 4301 digits; use sys.set_int_max_str_digits() to increase the limit''))"
    by (simp add: remove_control_big example_loads_big)
  from bg have "\<forall>x. loads example_env (remove_control big_number) = Inl x
      \<longrightarrow> (\<forall>e. x \<noteq> JSONDecodeError e) \<longrightarrow>
      run_loop example_env ''Find cats\<newline>{previous_responses}'' 0
        (test_agent text_big [search_tool] 1 False, example_task, 0, []) =
        (Inl x, (test_agent text_big [search_tool] 1 False, example_task, 0 + 1, []))"
    by (rule conjunct2[THEN conjunct2, THEN conjunct2, THEN conjunct2, THEN conjunct2,
          THEN conjunct2])
  from this[THEN spec, THEN mp, OF big]
  have 4: "run example_env (test_agent text_big [search_tool] 1 False) example_task 0 =
       (Inl (ValueError (''Exceeds the limit (4300 digits) for integer string conversion: ''
          @ ''value has 4301 digits; use sys.set_int_max_str_digits() to increase the limit'')),
        (test_agent text_big [search_tool] 1 False, example_task, 1, []))"
    by (simp add: run_test_agent)
  from 1 2 3 4 show ?thesis by simp
qed

lemma run_text_big:
  "run example_env (test_agent text_big [search_tool] 1 dbg) example_task 0 =
     (Inl (ValueError (''Exceeds the limit (4300 digits) for integer string conversion: ''
          @ ''value has 4301 digits; use sys.set_int_max_str_digits() to increase the limit'')),
      (test_agent text_big [search_tool] 1 dbg, example_task, 1, []))"
proof -
  let ?A = "test_agent text_big [search_tool] 1 dbg"
  have d: "decode_input example_env ?A big_number = (Inl (ValueError (''Exceeds the limit (4300 digits) for integer string conversion: ''
          @ ''value has 4301 digits; use sys.set_int_max_str_digits() to increase the limit'')), ?A)"
    by (rule decode_uncaught) (simp_all add: remove_control_big example_loads_big)
  have it: "iteration example_env ''Find cats\<newline>{previous_responses}'' (?A, example_task, 0, []) =
      (Raised (ValueError (''Exceeds the limit (4300 digits) for integer string conversion: ''
          @ ''value has 4301 digits; use sys.set_int_max_str_digits() to increase the limit'')), (?A, example_task, 1, []))"
    using iteration_reach[OF first_prompt fixed_llm_call[of text_big "[search_tool]" 1 dbg]
        parse_text_big, where task = example_task and w = 0]
    by (simp add: lookup_search d)
  have lt: "0 < max_loops (fst (?A, example_task, 0::nat, []::string list))" by simp
  from run_loop_Raised[OF lt it] show ?thesis by (simp add: run_test_agent)
qed

theorem tool_input_decoding_counterexample:
  "fst (parse (test_agent text_big [search_tool] 1 False) text_big) = Inr (''Search'', big_number)
   \<and> tool_by_names (test_agent text_big [search_tool] 1 False) ''Search'' = Some search_tool
   \<and> loads example_env (remove_control big_number) = Inl (ValueError (''Exceeds the limit (4300 digits) for integer string conversion: ''
          @ ''value has 4301 digits; use sys.set_int_max_str_digits() to increase the limit''))
   \<and> \<not> debug (test_agent text_big [search_tool] 1 False)
   \<and> errors_encountered (test_agent text_big [search_tool] 1 False) = []
   \<and> run example_env (test_agent text_big [search_tool] 1 False) example_task 0 =
       (Inl (ValueError (''Exceeds the limit (4300 digits) for integer string conversion: ''
          @ ''value has 4301 digits; use sys.set_int_max_str_digits() to increase the limit'')),
        (test_agent text_big [search_tool] 1 False, example_task, 1, []))
   \<and> debug (test_agent text_big [search_tool] 1 True)
   \<and> run example_env (test_agent text_big [search_tool] 1 True) example_task 0 =
       (Inl (ValueError (''Exceeds the limit (4300 digits) for integer string conversion: ''
          @ ''value has 4301 digits; use sys.set_int_max_str_digits() to increase the limit'')),
        (test_agent text_big [search_tool] 1 True, example_task, 1, []))"
  using run_text_big[of False] run_text_big[of True]
  by (simp add: parse_text_big lookup_search remove_control_big example_loads_big)

lemma parse_text_fail: "fst (parse self text_fail) = Inr (''Fail'', ''{}'')"
  by (rule parse_eval) (unfold text_fail_def, code_simp)

lemma parse_text_final_empty:
  "fst (parse self text_final_empty) = Inr (''Return Final Answer Tool'', ''{}'')"
  by (rule parse_eval) (unfold text_final_empty_def, code_simp)

lemma parse_text_final_42:
  \<open>fst (parse self text_final_42) = Inr (''Return Final Answer Tool'', ''{"answer": "42"}'')\<close>
  by (rule parse_eval) (unfold text_final_42_def, code_simp)

lemma parse_text_final_bare:
  "fst (parse self text_final_bare) = Inr (''Return Final Answer Tool'', ''42'')"
  by (rule parse_eval) (unfold text_final_bare_def, code_simp)

lemma parse_text_done:
  \<open>fst (parse self text_done) = Inr (''Done'', ''{"answer": "42"}'')\<close>
  by (rule parse_eval) (unfold text_done_def, code_simp)

lemma remove_control_values:
  "remove_control ''{}'' = ''{}''"
  "remove_control ''42'' = ''42''"
  \<open>remove_control ''{"answer": "42"}'' = ''{"answer": "42"}''\<close>
  \<open>remove_control ''{"q": "cats"}\<newline>'' = ''{"q": "cats"}''\<close>
  by code_simp+

lemma decode_values:
  "decode_input example_env self ''{}'' = (Inr (PDict []), self)"
  "decode_input example_env self ''42'' = (Inr (PInt 42), self)"
  \<open>decode_input example_env self ''{"answer": "42"}'' = (Inr (PDict [(''answer'', PStr ''42'')]), self)\<close>
  \<open>decode_input example_env self ''{"q": "cats"}\<newline>'' = (Inr (PDict [(''q'', PStr ''cats'')]), self)\<close>
  by (simp_all add: decode_ok remove_control_values example_loads_values)

lemma lookup_fail:
  "tool_by_names (test_agent g [failing_tool ''Fail'' False] n dbg) ''Fail''
     = Some (failing_tool ''Fail'' False)"
  by (simp add: tool_by_names_def failing_tool_def)

lemma lookup_failing_final:
  "tool_by_names (test_agent g [failing_tool ''Return Final Answer Tool'' True] n dbg)
     ''Return Final Answer Tool'' = Some (failing_tool ''Return Final Answer Tool'' True)"
  by (simp add: tool_by_names_def failing_tool_def)

lemma lookup_default_final:
  "tool_by_names (test_agent g [] n dbg) ''Return Final Answer Tool''
     = Some (ReturnFinalAnswerTool example_env)"
  by (simp add: tool_by_names_def)

lemma lookup_impostor:
  "tool_by_names (test_agent g [impostor_tool, done_tool] n dbg) ''Return Final Answer Tool''
     = Some impostor_tool"
  "tool_by_names (test_agent g [impostor_tool, done_tool] n dbg) ''Done'' = Some done_tool"
  by (simp_all add: tool_by_names_def impostor_tool_def done_tool_def search_tool_def)

lemma call_failing: "call_tool (failing_tool nm fin) w (PDict kw) = (Inl (''ValueError'', ''bad param''), w)"
  by (simp add: call_tool_def failing_tool_def)

theorem tool_exception_handling_witness:
  "call_tool (failing_tool ''Fail'' False) 1 (PDict []) = (Inl (''ValueError'', ''bad param''), 1)
   \<and> run example_env (test_agent text_fail [failing_tool ''Fail'' False] 1 True) example_task 0 =
       (Inl (ValueError ''Error from tool: bad param''),
        ((test_agent text_fail [failing_tool ''Fail'' False] 1 True)
           \<lparr>errors_encountered := [ToolException ''ValueError'' ''bad param'']\<rparr>,
         example_task, 1, []))
   \<and> run example_env (test_agent text_fail [failing_tool ''Fail'' False] 1 False) example_task 0 =
       (Inr None,
        ((test_agent text_fail [failing_tool ''Fail'' False] 1 False)
           \<lparr>errors_encountered := [ToolException ''ValueError'' ''bad param''],
            ai_responses :=
              [strip (text_fail @ ''\<newline>Observation: Error from tool: bad param\<newline>Next Thought:'')]\<rparr>,
         example_task, 1,
         [text_fail @ ''\<newline>Observation: Error from tool: bad param\<newline>Next Thought:'']))
   \<and> run example_env (test_agent text_final_empty [failing_tool ''Return Final Answer Tool'' True]
          2 False) example_task 0 =
       (Inr (Some ''Error from tool: bad param''),
        ((test_agent text_final_empty [failing_tool ''Return Final Answer Tool'' True] 2 False)
           \<lparr>errors_encountered := [ToolException ''ValueError'' ''bad param''],
            ai_responses :=
              [strip (text_final_empty
                 @ ''\<newline>Observation: Error from tool: bad param\<newline>Next Thought:'')]\<rparr>,
         example_task\<lparr>raw_output := Some ''Error from tool: bad param'', completed := True\<rparr>, 1,
         [text_final_empty @ ''\<newline>Observation: Error from tool: bad param\<newline>Next Thought:'']))"
proof -
  have n: "0 < max_loops (test_agent g ts 1 dbg)" for g ts dbg by simp
  have n2: "0 < max_loops (test_agent g ts 2 dbg)" for g ts dbg by simp
  note T = tool_exception_handling[OF n[of text_fail _ True] first_prompt fixed_llm_call
      parse_text_fail lookup_fail decode_values(1) call_failing,
      where task = example_task and w = 0]
  note F = tool_exception_handling[OF n[of text_fail _ False] first_prompt fixed_llm_call
      parse_text_fail lookup_fail decode_values(1) call_failing,
      where task = example_task and w = 0]
  note X = tool_exception_handling[OF n2[of text_final_empty _ False] first_prompt fixed_llm_call
      parse_text_final_empty lookup_failing_final decode_values(1) call_failing,
      where task = example_task and w = 0]
  have fin: "run_loop example_env p 1 (a\<lparr>errors_encountered := es, ai_responses := rs\<rparr>, t, w, pr)
      = (Inr None, (a\<lparr>errors_encountered := es, ai_responses := rs\<rparr>, t, w, pr))"
    if "max_loops a = 1" for p a es rs t w pr
    using that by (simp add: run_loop_done)
  from T F X show ?thesis
    by (simp add: run_test_agent call_failing fin)
qed

lemma call_default_final:
  "call_tool (ReturnFinalAnswerTool E) w (PDict [(k, PStr s)]) = (Inr s, w)"
  by (simp add: call_tool_def ReturnFinalAnswerTool_def)

theorem final_answer_returns_witness:
  \<open>decode_input example_env (test_agent text_final_42 [] 1 False) ''{"answer": "42"}''
     = (Inr (PDict [(''answer'', PStr ''42'')]), test_agent text_final_42 [] 1 False)
   \<and> run example_env (test_agent text_final_42 [] 1 False) example_task 0 =
       (Inr (Some ''42''),
        ((test_agent text_final_42 [] 1 False)
           \<lparr>ai_responses :=
              [strip (text_final_42 @ ''\<newline>Observation: 42\<newline>Next Thought:'')]\<rparr>,
         example_task\<lparr>raw_output := Some ''42'', completed := True\<rparr>, 1,
         [text_final_42 @ ''\<newline>Observation: 42\<newline>Next Thought:'']))
   \<and> fst (parse (test_agent text_final_bare [] 1 False) text_final_bare)
       = Inr (''Return Final Answer Tool'', ''42'')
   \<and> decode_input example_env (test_agent text_final_bare [] 1 False) ''42''
       = (Inr (PInt 42), test_agent text_final_bare [] 1 False)
   \<and> run example_env (test_agent text_final_bare [] 1 False) example_task 0 =
       (Inr (Some ''Error from tool: squad_goals.tools.base_tool.ReturnFinalAnswerTool.run() argument after ** must be a mapping, not int''),
        ((test_agent text_final_bare [] 1 False)
           \<lparr>errors_encountered := [ToolException ''TypeError'' ''squad_goals.tools.base_tool.ReturnFinalAnswerTool.run() argument after ** must be a mapping, not int''],
            ai_responses :=
              [strip (text_final_bare @ ''\<newline>Observation: '' @ ''Error from tool: squad_goals.tools.base_tool.ReturnFinalAnswerTool.run() argument after ** must be a mapping, not int'' @ ''\<newline>Next Thought:'')]\<rparr>,
         example_task\<lparr>raw_output := Some ''Error from tool: squad_goals.tools.base_tool.ReturnFinalAnswerTool.run() argument after ** must be a mapping, not int'', completed := True\<rparr>, 1,
         [text_final_bare @ ''\<newline>Observation: '' @ ''Error from tool: squad_goals.tools.base_tool.ReturnFinalAnswerTool.run() argument after ** must be a mapping, not int'' @ ''\<newline>Next Thought:'']))\<close>
proof -
  have n: "0 < max_loops (test_agent g ts 1 dbg)" for g ts dbg by simp
  have d: "dispatch (test_agent text_final_42 [] 1 False) (ReturnFinalAnswerTool example_env) w
      (PDict [(''answer'', PStr ''42'')]) = (Inr ''42'', test_agent text_final_42 [] 1 False, w)"
    for w by (simp add: dispatch_returned[OF call_default_final])
  have c: "call_tool (ReturnFinalAnswerTool example_env) w (PInt 42) = (Inl (''TypeError'', ''squad_goals.tools.base_tool.ReturnFinalAnswerTool.run() argument after ** must be a mapping, not int''), w)"
    for w :: nat by (simp add: call_tool_def ReturnFinalAnswerTool_def example_env_def)
  have d2: "dispatch (test_agent text_final_bare [] 1 False) (ReturnFinalAnswerTool example_env) w
      (PInt 42) =
      (Inr ''Error from tool: squad_goals.tools.base_tool.ReturnFinalAnswerTool.run() argument after ** must be a mapping, not int'',
       (test_agent text_final_bare [] 1 False)
         \<lparr>errors_encountered := [ToolException ''TypeError'' ''squad_goals.tools.base_tool.ReturnFinalAnswerTool.run() argument after ** must be a mapping, not int'']\<rparr>, w)"
    for w by (simp add: dispatch_raised[OF c])
  from final_answer_returns[OF n[of text_final_42 _ False] first_prompt fixed_llm_call
      parse_text_final_42 lookup_default_final decode_values(3) d refl,
      where task = example_task and w = 0]
  have 1: \<open>run example_env (test_agent text_final_42 [] 1 False) example_task 0 =
       (Inr (Some ''42''),
        ((test_agent text_final_42 [] 1 False)
           \<lparr>ai_responses :=
              [strip (text_final_42 @ ''\<newline>Observation: 42\<newline>Next Thought:'')]\<rparr>,
         example_task\<lparr>raw_output := Some ''42'', completed := True\<rparr>, 1,
         [text_final_42 @ ''\<newline>Observation: 42\<newline>Next Thought:'']))\<close>
    by (simp add: run_test_agent)
  from final_answer_returns[OF n[of text_final_bare _ False] first_prompt fixed_llm_call
      parse_text_final_bare lookup_default_final decode_values(2) d2 refl,
      where task = example_task and w = 0]
  have 2: "run example_env (test_agent text_final_bare [] 1 False) example_task 0 =
       (Inr (Some ''Error from tool: squad_goals.tools.base_tool.ReturnFinalAnswerTool.run() argument after ** must be a mapping, not int''),
        ((test_agent text_final_bare [] 1 False)
           \<lparr>errors_encountered := [ToolException ''TypeError'' ''squad_goals.tools.base_tool.ReturnFinalAnswerTool.run() argument after ** must be a mapping, not int''],
            ai_responses :=
              [strip (text_final_bare @ ''\<newline>Observation: '' @ ''Error from tool: squad_goals.tools.base_tool.ReturnFinalAnswerTool.run() argument after ** must be a mapping, not int'' @ ''\<newline>Next Thought:'')]\<rparr>,
         example_task\<lparr>raw_output := Some ''Error from tool: squad_goals.tools.base_tool.ReturnFinalAnswerTool.run() argument after ** must be a mapping, not int'', completed := True\<rparr>, 1,
         [text_final_bare @ ''\<newline>Observation: '' @ ''Error from tool: squad_goals.tools.base_tool.ReturnFinalAnswerTool.run() argument after ** must be a mapping, not int'' @ ''\<newline>Next Thought:'']))"
    by (simp add: run_test_agent)
  from 1 2 show ?thesis by (simp add: decode_values parse_text_final_bare)
qed

lemma re_search_text_done: \<open>re_search text_done = Some (''Done'', ''{"answer": "42"}'')\<close>
  unfolding text_done_def by code_simp

lemma strip_done: "strip ''Done'' = ''Done''"
  by code_simp

theorem final_path_by_name_witness:
  \<open>\<not> is_final impostor_tool \<and> is_final done_tool
   \<and> tools (test_agent text_final_42 [impostor_tool, done_tool] 3 False) = [impostor_tool, done_tool]
   \<and> run example_env (test_agent text_final_42 [impostor_tool, done_tool] 3 False) example_task 0 =
       (Inr (Some ''3 results''),
        ((test_agent text_final_42 [impostor_tool, done_tool] 3 False)
           \<lparr>ai_responses :=
              [strip (text_final_42 @ ''\<newline>Observation: 3 results\<newline>Next Thought:'')]\<rparr>,
         example_task\<lparr>raw_output := Some ''3 results'', completed := True\<rparr>, 1,
         [text_final_42 @ ''\<newline>Observation: 3 results\<newline>Next Thought:'']))
   \<and> run example_env (test_agent text_done [impostor_tool, done_tool] 1 False) example_task 0 =
       (Inr None,
        ((test_agent text_done [impostor_tool, done_tool] 1 False)
           \<lparr>ai_responses :=
              [strip (text_done @ ''\<newline>Observation: 42\<newline>Next Thought:'')]\<rparr>,
         example_task, 1,
         [text_done @ ''\<newline>Observation: 42\<newline>Next Thought:'']))
   \<and> fst (run example_env (test_agent text_done [impostor_tool, done_tool] 3 False) example_task 0)
       \<noteq> Inr (Some ''42'')
   \<and> fst (snd (snd (run example_env (test_agent text_done [impostor_tool, done_tool] 3 False)
        example_task 0))) = example_task\<close>
proof -
  let ?I = "test_agent text_final_42 [impostor_tool, done_tool] 3 False"
  let ?J = "test_agent text_done [impostor_tool, done_tool] 1 False"
  let ?K = "test_agent text_done [impostor_tool, done_tool] 3 False"
  have ty: "\<not> is_final impostor_tool" "is_final done_tool"
    by (simp_all add: impostor_tool_def done_tool_def search_tool_def)
  have ci: "call_tool impostor_tool w (PDict kw) = (Inr ''3 results'', w)" for w kw
    by (simp add: call_tool_def impostor_tool_def search_tool_def)
  have cd: "call_tool done_tool w (PDict [(k, PStr s)]) = (Inr s, w)" for w k s
    by (simp add: call_tool_def done_tool_def ReturnFinalAnswerTool_def)
  have n3: "0 < max_loops ?I" and n1: "0 < max_loops ?J" by simp_all
  note ti = final_path_by_name[where E = example_env and self = ?I and task = example_task
      and w = 0]
  note tj = final_path_by_name[where E = example_env and self = ?J and task = example_task
      and w = 0]
  note tk = final_path_by_name[where E = example_env and self = ?K and task = example_task
      and w = 0]
  note i = ti[THEN conjunct2, THEN conjunct1, rule_format, OF n3 first_prompt fixed_llm_call
      parse_text_final_42 lookup_impostor(1), THEN conjunct1, rule_format,
      OF decode_values(3) dispatch_returned[OF ci], THEN conjunct1]
  then have 1: \<open>run example_env ?I example_task 0 =
       (Inr (Some ''3 results''),
        (?I\<lparr>ai_responses :=
              [strip (text_final_42 @ ''\<newline>Observation: 3 results\<newline>Next Thought:'')]\<rparr>,
         example_task\<lparr>raw_output := Some ''3 results'', completed := True\<rparr>, 1,
         [text_final_42 @ ''\<newline>Observation: 3 results\<newline>Next Thought:'']))\<close>
    by (simp add: run_test_agent)
  note j = tj[THEN conjunct2, THEN conjunct1, rule_format, OF n1 first_prompt fixed_llm_call
      parse_text_done lookup_impostor(2), THEN conjunct1, rule_format,
      OF decode_values(3) dispatch_returned[OF cd], THEN conjunct2]
  then have 2: \<open>run example_env ?J example_task 0 =
       (Inr None,
        (?J\<lparr>ai_responses :=
              [strip (text_done @ ''\<newline>Observation: 42\<newline>Next Thought:'')]\<rparr>,
         example_task, 1,
         [text_done @ ''\<newline>Observation: 42\<newline>Next Thought:'']))\<close>
    by (simp add: run_test_agent run_loop_done)
  have never: "\<forall>w' msgs g1 g2.
      re_search (fst (llm ?K w' msgs (stop_pattern ?K))) = Some (g1, g2)
      \<longrightarrow> strip g1 \<noteq> ''Return Final Answer Tool''"
    by (simp add: fixed_llm_def re_search_text_done strip_done)
  note k = tk[THEN conjunct2, THEN conjunct2, THEN conjunct2, THEN mp, OF never]
  from k have 3: "fst (run example_env ?K example_task 0) \<noteq> Inr (Some ''42'')"
    by (rule conjunct1[THEN spec])
  from k have 4: "fst (snd (snd (run example_env ?K example_task 0))) = example_task"
    by (rule conjunct2)
  from ty 1 2 3 4 show ?thesis by (simp add: ty)
qed

theorem final_path_by_name_counterexample:
  "fst (parse (test_agent text_final_empty [failing_tool ''Return Final Answer Tool'' True] 1 True)
         text_final_empty) = Inr (''Return Final Answer Tool'', ''{}'')
   \<and> tool_by_names (test_agent text_final_empty [failing_tool ''Return Final Answer Tool'' True] 1 True)
        ''Return Final Answer Tool'' = Some (failing_tool ''Return Final Answer Tool'' True)
   \<and> debug (test_agent text_final_empty [failing_tool ''Return Final Answer Tool'' True] 1 True)
   \<and> run example_env
        (test_agent text_final_empty [failing_tool ''Return Final Answer Tool'' True] 1 True)
        example_task 0 =
       (Inl (ValueError ''Error from tool: bad param''),
        ((test_agent text_final_empty [failing_tool ''Return Final Answer Tool'' True] 1 True)
           \<lparr>errors_encountered := [ToolException ''ValueError'' ''bad param'']\<rparr>,
         example_task, 1, []))
   \<and> completed example_task = False"
proof -
  let ?A = "test_agent text_final_empty [failing_tool ''Return Final Answer Tool'' True] 1 True"
  have it: "iteration example_env ''Find cats\<newline>{previous_responses}'' (?A, example_task, 0, []) =
      (Raised (ValueError ''Error from tool: bad param''),
       (?A\<lparr>errors_encountered := [ToolException ''ValueError'' ''bad param'']\<rparr>,
        example_task, 1, []))"
    using iteration_reach[OF first_prompt
        fixed_llm_call[of text_final_empty "[failing_tool ''Return Final Answer Tool'' True]" 1 True]
        parse_text_final_empty, where task = example_task and w = 0]
    by (simp add: lookup_failing_final decode_values dispatch_raised[OF call_failing])
  have lt: "0 < max_loops (fst (?A, example_task, 0::nat, []::string list))" by simp
  from run_loop_Raised[OF lt it]
  have r: "run example_env ?A example_task 0 =
      (Inl (ValueError ''Error from tool: bad param''),
       (?A\<lparr>errors_encountered := [ToolException ''ValueError'' ''bad param'']\<rparr>,
        example_task, 1, []))"
    by (simp add: run_test_agent)
  have c: "completed example_task = False" by (simp add: example_task_def)
  from r c show ?thesis
    by (simp add: parse_text_final_empty lookup_failing_final)
qed

lemma model_search:
  "\<forall>w' msgs. \<exists>g1 g2 t.
      re_search (fst (llm (test_agent example_text [search_tool] n dbg) w' msgs
        (stop_pattern (test_agent example_text [search_tool] n dbg)))) = Some (g1, g2)
      \<and> tool_by_names (test_agent example_text [search_tool] n dbg) (strip g1) = Some t
      \<and> strip g1 \<noteq> ''Return Final Answer Tool''
      \<and> (case loads example_env
                 (remove_control (strip_chars is_dquote (strip_chars is_blank g2))) of
           Inr v \<Rightarrow> debug (test_agent example_text [search_tool] n dbg) \<longrightarrow>
             (\<exists>r w2. call_tool t
                 (snd (llm (test_agent example_text [search_tool] n dbg) w' msgs
                    (stop_pattern (test_agent example_text [search_tool] n dbg)))) v = (Inr r, w2))
         | Inl x \<Rightarrow> \<not> debug (test_agent example_text [search_tool] n dbg)
             \<and> (\<exists>e. x = JSONDecodeError e))"
proof (intro allI)
  fix w' :: nat and msgs :: "(string \<times> string) list"
  have c: "call_tool search_tool w kw = (Inr ''3 results'', w)" if "\<exists>d. kw = PDict d" for w kw
    using that by (auto simp: call_tool_def search_tool_def)
  show \<open>\<exists>g1 g2 t.
      re_search (fst (llm (test_agent example_text [search_tool] n dbg) w' msgs
        (stop_pattern (test_agent example_text [search_tool] n dbg)))) = Some (g1, g2)
      \<and> tool_by_names (test_agent example_text [search_tool] n dbg) (strip g1) = Some t
      \<and> strip g1 \<noteq> ''Return Final Answer Tool''
      \<and> (case loads example_env
                 (remove_control (strip_chars is_dquote (strip_chars is_blank g2))) of
           Inr v \<Rightarrow> debug (test_agent example_text [search_tool] n dbg) \<longrightarrow>
             (\<exists>r w2. call_tool t
                 (snd (llm (test_agent example_text [search_tool] n dbg) w' msgs
                    (stop_pattern (test_agent example_text [search_tool] n dbg)))) v = (Inr r, w2))
         | Inl x \<Rightarrow> \<not> debug (test_agent example_text [search_tool] n dbg)
             \<and> (\<exists>e. x = JSONDecodeError e))\<close>
    apply (rule_tac x = "''Search''" in exI)
    apply (rule_tac x = \<open>''{"q": "cats"}\<newline>''\<close> in exI)
    apply (rule_tac x = search_tool in exI)
    apply (simp add: fixed_llm_def re_search_example strip_example lookup_search
        remove_control_values example_loads_values c)
    done
qed

lemma model_plain:
  "\<forall>w' msgs. \<exists>g1 g2 t.
      re_search (fst (llm (test_agent text_plain [search_tool] n False) w' msgs
        (stop_pattern (test_agent text_plain [search_tool] n False)))) = Some (g1, g2)
      \<and> tool_by_names (test_agent text_plain [search_tool] n False) (strip g1) = Some t
      \<and> strip g1 \<noteq> ''Return Final Answer Tool''
      \<and> (case loads example_env
                 (remove_control (strip_chars is_dquote (strip_chars is_blank g2))) of
           Inr v \<Rightarrow> debug (test_agent text_plain [search_tool] n False) \<longrightarrow>
             (\<exists>r w2. call_tool t
                 (snd (llm (test_agent text_plain [search_tool] n False) w' msgs
                    (stop_pattern (test_agent text_plain [search_tool] n False)))) v = (Inr r, w2))
         | Inl x \<Rightarrow> \<not> debug (test_agent text_plain [search_tool] n False)
             \<and> (\<exists>e. x = JSONDecodeError e))"
proof (intro allI)
  fix w' :: nat and msgs :: "(string \<times> string) list"
  have rs: "re_search text_plain = Some (''Search'', ''cats'')"
    unfolding text_plain_def by code_simp
  have st: "strip_chars is_dquote (strip_chars is_blank ''cats'') = ''cats''"
    "remove_control ''cats'' = ''cats''" by code_simp+
  show "\<exists>g1 g2 t.
      re_search (fst (llm (test_agent text_plain [search_tool] n False) w' msgs
        (stop_pattern (test_agent text_plain [search_tool] n False)))) = Some (g1, g2)
      \<and> tool_by_names (test_agent text_plain [search_tool] n False) (strip g1) = Some t
      \<and> strip g1 \<noteq> ''Return Final Answer Tool''
      \<and> (case loads example_env
                 (remove_control (strip_chars is_dquote (strip_chars is_blank g2))) of
           Inr v \<Rightarrow> debug (test_agent text_plain [search_tool] n False) \<longrightarrow>
             (\<exists>r w2. call_tool t
                 (snd (llm (test_agent text_plain [search_tool] n False) w' msgs
                    (stop_pattern (test_agent text_plain [search_tool] n False)))) v = (Inr r, w2))
         | Inl x \<Rightarrow> \<not> debug (test_agent text_plain [search_tool] n False)
             \<and> (\<exists>e. x = JSONDecodeError e))"
    apply (rule_tac x = "''Search''" in exI)
    apply (rule_tac x = "''cats''" in exI)
    apply (rule_tac x = search_tool in exI)
    apply (simp add: fixed_llm_def rs st strip_example lookup_search example_loads_values)
    done
qed

theorem loop_budget_exhausted_witness:
  "(\<forall>x. \<exists>cp. py_format example_env ''Find cats\<newline>{previous_responses}''
          [(''previous_responses'', x)] = Inr cp)
   \<and> debug (test_agent example_text [search_tool] 3 True)
   \<and> (\<exists>self' w' prev'.
         run example_env (test_agent example_text [search_tool] 3 True) example_task 0
           = (Inr None, (self', example_task, w', prev'))
         \<and> length (ai_responses self') = 3 \<and> length prev' = 3)
   \<and> \<not> debug (test_agent text_plain [search_tool] 2 False)
   \<and> (\<exists>self' w' prev'.
         run example_env (test_agent text_plain [search_tool] 2 False) example_task 0
           = (Inr None, (self', example_task, w', prev'))
         \<and> length (ai_responses self') = 2 \<and> length prev' = 2)
   \<and> (\<exists>self' w' prev'.
         run example_env (test_agent example_text [search_tool] 0 False) example_task 0
           = (Inr None, (self', example_task, w', prev'))
         \<and> length (ai_responses self') = 0 \<and> length prev' = 0)"
proof -
  have first: "py_format example_env (prompt_template (test_agent g [search_tool] n dbg))
      [(''today'', today example_env),
       (''tool_description'', tool_description (test_agent g [search_tool] n dbg)),
       (''tool_names'', tool_names (test_agent g [search_tool] n dbg)),
       (''goal'', goal example_task),
       (''previous_responses'', ''{previous_responses}'')]
      = Inr ''Find cats\<newline>{previous_responses}''" for g n dbg
    by (simp add: short_template_first example_task_def)
  have render: "\<forall>x. \<exists>cp. py_format example_env ''Find cats\<newline>{previous_responses}''
          [(''previous_responses'', x)] = Inr cp"
    by (simp add: short_template_second)
  from loop_budget_exhausted[OF first render model_search, of 3 True 0]
  have 1: "\<exists>self' w' prev'.
         run example_env (test_agent example_text [search_tool] 3 True) example_task 0
           = (Inr None, (self', example_task, w', prev'))
         \<and> length (ai_responses self') = 3 \<and> length prev' = 3"
    by simp
  from loop_budget_exhausted[OF first render model_plain, of 2 0]
  have 2: "\<exists>self' w' prev'.
         run example_env (test_agent text_plain [search_tool] 2 False) example_task 0
           = (Inr None, (self', example_task, w', prev'))
         \<and> length (ai_responses self') = 2 \<and> length prev' = 2"
    by (simp add: numeral_2_eq_2)
  from loop_budget_exhausted[OF first render model_search, of 0 False 0]
  have 3: "\<exists>self' w' prev'.
         run example_env (test_agent example_text [search_tool] 0 False) example_task 0
           = (Inr None, (self', example_task, w', prev'))
         \<and> length (ai_responses self') = 0 \<and> length prev' = 0"
    by simp
  from render 1 2 3 show ?thesis by simp
qed

theorem loop_budget_exhausted_counterexample:
  "fst (llm (test_agent text_plain [search_tool] 1 True) 0 [(''user'', ''Find cats\<newline>'')]
          (stop_pattern (test_agent text_plain [search_tool] 1 True))) = text_plain
   \<and> re_search text_plain = Some (''Search'', ''cats'')
   \<and> strip ''Search'' = ''Search''
   \<and> ''Search'' \<in> set (map name (tools (test_agent text_plain [search_tool] 1 True)))
   \<and> fst (run example_env (test_agent text_plain [search_tool] 1 True) example_task 0)
       = Inl (ValueError ''Error parsing JSON: Expecting value: line 1 column 1 (char 0)'')
   \<and> fst (llm (test_agent text_big [search_tool] 1 False) 0 [(''user'', ''Find cats\<newline>'')]
          (stop_pattern (test_agent text_big [search_tool] 1 False))) = text_big
   \<and> re_search text_big = Some (''Search'', big_number)
   \<and> ''Search'' \<in> set (map name (tools (test_agent text_big [search_tool] 1 False)))
   \<and> \<not> debug (test_agent text_big [search_tool] 1 False)
   \<and> fst (run example_env (test_agent text_big [search_tool] 1 False) example_task 0)
       = Inl (ValueError (''Exceeds the limit (4300 digits) for integer string conversion: ''
          @ ''value has 4301 digits; use sys.set_int_max_str_digits() to increase the limit''))"
proof -
  let ?A = "test_agent text_plain [search_tool] 1 True"
  have rc: "remove_control ''cats'' = ''cats''" by code_simp
  have d: "decode_input example_env ?A ''cats'' =
      (Inl (ValueError ''Error parsing JSON: Expecting value: line 1 column 1 (char 0)''),
       ?A\<lparr>errors_encountered := [JSONDecodeError ''Expecting value: line 1 column 1 (char 0)'']\<rparr>)"
    by (simp add: decode_failed rc example_loads_values)
  have it: "iteration example_env ''Find cats\<newline>{previous_responses}'' (?A, example_task, 0, []) =
      (Raised (ValueError ''Error parsing JSON: Expecting value: line 1 column 1 (char 0)''),
       (?A\<lparr>errors_encountered := [JSONDecodeError ''Expecting value: line 1 column 1 (char 0)'']\<rparr>,
        example_task, 1, []))"
    using iteration_reach[OF first_prompt fixed_llm_call[of text_plain "[search_tool]" 1 True]
        parse_text_plain, where task = example_task and w = 0]
    by (simp add: lookup_search d)
  have lt: "0 < max_loops (fst (?A, example_task, 0::nat, []::string list))" by simp
  have rs: "re_search text_plain = Some (''Search'', ''cats'')"
    unfolding text_plain_def by code_simp
  from run_loop_Raised[OF lt it] rs run_text_big[of False] show ?thesis
    by (simp add: run_test_agent fixed_llm_def strip_example search_tool_def re_search_text_big)
qed

lemma default_tool_texts:
  "tool_description (Agent example_env l [] p m sp v d)
     = ''Return Final Answer Tool: Return the final answer. how to run: run(answer: str)''"
  "tool_names (Agent example_env l [] p m sp v d) = ''Return Final Answer Tool''"
  by (simp_all add: tool_description_def tool_names_def Agent_def ReturnFinalAnswerTool_def
      example_env_def)

lemma brace_goal_format:
  "case py_format example_env PROMPT_TEMPLATE
          [(''today'', ''2026-11-04''),
           (''tool_description'',
            ''Return Final Answer Tool: Return the final answer. how to run: run(answer: str)''),
           (''tool_names'', ''Return Final Answer Tool''),
           (''goal'', ''{''),
           (''previous_responses'', ''{previous_responses}'')] of
     Inl e \<Rightarrow> False
   | Inr prompt \<Rightarrow>
       py_format example_env prompt [(''previous_responses'', [])]
         = Inl (ValueError ''unmatched '{' in format spec'')"
  by code_simp

text \<open>
  C10. There is a task whose goal contains a brace for which \<open>run\<close> raises a formatting
  error: with the default template and the goal \<open>{\<close>, the first \<open>format\<close> succeeds and puts
  the goal into the prompt, and the \<open>format\<close> of the first iteration reads that brace as
  the start of a replacement field and raises \<open>ValueError\<close>. The result does not depend on
  the model, and the agent, the task and the world are as before: no call of the model
  or of a tool has been made.
\<close>

theorem brace_goal_raises:
  assumes "0 < m"
  shows "CHR ''{'' \<in> set (goal brace_task)
     \<and> (\<exists>prompt.
          py_format example_env PROMPT_TEMPLATE
            [(''today'', today example_env),
             (''tool_description'', tool_description (Agent example_env l [] PROMPT_TEMPLATE m sp v d)),
             (''tool_names'', tool_names (Agent example_env l [] PROMPT_TEMPLATE m sp v d)),
             (''goal'', goal brace_task),
             (''previous_responses'', ''{previous_responses}'')] = Inr prompt
          \<and> py_format example_env prompt [(''previous_responses'', [])]
              = Inl (ValueError ''unmatched '{' in format spec''))
     \<and> run example_env (Agent example_env l [] PROMPT_TEMPLATE m sp v d) brace_task w
         = (Inl (ValueError ''unmatched '{' in format spec''),
            (Agent example_env l [] PROMPT_TEMPLATE m sp v d, brace_task, w, []))"
proof -
  let ?A = "Agent example_env l [] PROMPT_TEMPLATE m sp v d"
  let ?kw = "[(''today'', today example_env),
             (''tool_description'', tool_description ?A),
             (''tool_names'', tool_names ?A),
             (''goal'', goal brace_task),
             (''previous_responses'', ''{previous_responses}'')]"
  have kw: "?kw = [(''today'', ''2026-11-04''),
           (''tool_description'',
            ''Return Final Answer Tool: Return the final answer. how to run: run(answer: str)''),
           (''tool_names'', ''Return Final Answer Tool''),
           (''goal'', ''{''),
           (''previous_responses'', ''{previous_responses}'')]"
  proof -
    have t: "today example_env = ''2026-11-04''" by (simp add: example_env_def)
    show ?thesis by (simp add: default_tool_texts brace_task_def t)
  qed
  from brace_goal_format obtain prompt where
    p: "py_format example_env PROMPT_TEMPLATE ?kw = Inr prompt"
    and e: "py_format example_env prompt [(''previous_responses'', [])]
              = Inl (ValueError ''unmatched '{' in format spec'')"
    unfolding kw by (auto split: sum.splits)
  have pt: "prompt_template ?A = PROMPT_TEMPLATE" "ai_responses ?A = []" "max_loops ?A = m"
    by (simp_all add: Agent_def)
  have p': "py_format example_env (prompt_template ?A) ?kw = Inr prompt"
    using p by (simp only: pt)
  have e': "py_format example_env prompt
      [(''previous_responses'', strip (join [CHR 0x0A] (ai_responses ?A)))]
      = Inl (ValueError ''unmatched '{' in format spec'')"
    using e by (simp add: pt strip_def strip_chars_def)
  have m: "0 < max_loops ?A" using assms by (simp only: pt)
  from run_render_error[OF p' e' m, of w]
  have "run example_env ?A brace_task w = (Inl (ValueError ''unmatched '{' in format spec''),
      (?A, brace_task, w, []))"
    by (simp only: pt)
  with p e show ?thesis by (auto simp: pt brace_task_def)
qed

theorem brace_goal_raises_witness:
  "(0::int) < 5
   \<and> run example_env
        (Agent example_env (fixed_llm example_text) [] PROMPT_TEMPLATE 5 default_stop_pattern
           False False) brace_task 0
      = (Inl (ValueError ''unmatched '{' in format spec''),
         (Agent example_env (fixed_llm example_text) [] PROMPT_TEMPLATE 5 default_stop_pattern
            False False, brace_task, 0, []))"
proof -
  have h: "(0::int) < 5" by simp
  from brace_goal_raises[OF h, of "fixed_llm example_text" default_stop_pattern False False 0] h
  show ?thesis by blast
qed

end
